theory Spec2Isabelle
  imports Main "HOL-Library.Word"
begin

section \<open>The Manager of the batch simulator (src/mgr.cpp, src/sim.hpp)\<close>

text \<open>
  A shallow embedding of \<^verbatim>\<open>src/mgr.cpp\<close>: the asset loading
  (\<^verbatim>\<open>loadPhysicsObjects\<close>), the backend construction (\<^verbatim>\<open>Manager::Impl::init\<close>),
  the Manager's constructor, its per-world control operations, its tensor accessors and the
  GPU rollout pipeline (\<^verbatim>\<open>Manager::CUDAImpl::gpuRollout\<close>).

  Machine integers are words: \<^verbatim>\<open>int32_t\<close> and \<^verbatim>\<open>uint32_t\<close> are
  \<open>32 word\<close> (read with \<open>sint\<close> and \<open>uint\<close>), \<^verbatim>\<open>int64_t\<close> and
  \<^verbatim>\<open>uint64_t\<close> are \<open>64 word\<close>. A \<^verbatim>\<open>float\<close> is the 32 bits of
  its IEEE-754 encoding; the file only stores float constants and never computes with them.
  A pointer is a 64-bit address, \<open>0\<close> being \<^verbatim>\<open>nullptr\<close>.
\<close>

type_synonym int32_t = "32 word"
type_synonym uint32_t = "32 word"
type_synonym int64_t = "64 word"
type_synonym uint64_t = "64 word"
type_synonym float32 = "32 word"
type_synonym ptr = "64 word"
type_synonym cudaStream_t = "64 word"

subsection \<open>Outcomes\<close>

text \<open>
  Every way a function of the file can leave other than by returning is a value:
  \<open>FATAL msg\<close> is a call of the macro \<^verbatim>\<open>FATAL\<close> with the message printed,
  \<open>MADRONA_UNREACHABLE\<close> is control reaching the macro of that name,
  \<open>AssertFailed\<close> is \<^verbatim>\<open>assert(false)\<close>, and \<open>UndefinedBehaviour\<close> is an
  access outside an array or a signed overflow, where C++ promises nothing.
\<close>

datatype error = FATAL string | MADRONA_UNREACHABLE | AssertFailed | UndefinedBehaviour

definition bindE :: "error + 'a \<Rightarrow> ('a \<Rightarrow> error + 'b) \<Rightarrow> error + 'b" where
  "bindE r f = (case r of Inl e \<Rightarrow> Inl e | Inr v \<Rightarrow> f v)"

text \<open>
  Modelled from the spec: the macros \<^verbatim>\<open>FATAL\<close> and \<^verbatim>\<open>MADRONA_UNREACHABLE\<close>
  belong to the madrona library and their definitions are not among the sources. The spec
  (section 7) lists "asset import failure, invalid collision-hull input, requesting a GPU
  backend when none is available, an unreachable backend-selector value" as
  process-terminating; so both macros count as terminating the process.
\<close>

definition aborts :: "error \<Rightarrow> bool" where
  "aborts e = (case e of FATAL msg \<Rightarrow> True | MADRONA_UNREACHABLE \<Rightarrow> True
                | AssertFailed \<Rightarrow> False | UndefinedBehaviour \<Rightarrow> False)"

subsection \<open>Enumerations of src/sim.hpp\<close>

datatype ExportID =
    ExportID_Reset
  | ExportID_Action
  | ExportID_Reward
  | ExportID_Done
  | ExportID_SelfObservation
  | ExportID_AgentID
  | ExportID_PartnerObservations
  | ExportID_RoomEntityObservations
  | ExportID_DoorObservation
  | ExportID_Lidar
  | ExportID_StepsRemaining
  | ExportID_Checkpoint
  | ExportID_CheckpointReset
  | ExportID_CheckpointSave
  | ExportID_NumExports

fun ExportID_u32 :: "ExportID \<Rightarrow> uint32_t" where
  "ExportID_u32 ExportID_Reset = 0"
| "ExportID_u32 ExportID_Action = 1"
| "ExportID_u32 ExportID_Reward = 2"
| "ExportID_u32 ExportID_Done = 3"
| "ExportID_u32 ExportID_SelfObservation = 4"
| "ExportID_u32 ExportID_AgentID = 5"
| "ExportID_u32 ExportID_PartnerObservations = 6"
| "ExportID_u32 ExportID_RoomEntityObservations = 7"
| "ExportID_u32 ExportID_DoorObservation = 8"
| "ExportID_u32 ExportID_Lidar = 9"
| "ExportID_u32 ExportID_StepsRemaining = 10"
| "ExportID_u32 ExportID_Checkpoint = 11"
| "ExportID_u32 ExportID_CheckpointReset = 12"
| "ExportID_u32 ExportID_CheckpointSave = 13"
| "ExportID_u32 ExportID_NumExports = 14"

datatype SimObject =
    SimObject_Cube
  | SimObject_Wall
  | SimObject_Door
  | SimObject_Agent
  | SimObject_Button
  | SimObject_Key
  | SimObject_Plane
  | SimObject_NumObjects

fun SimObject_idx :: "SimObject \<Rightarrow> nat" where
  "SimObject_idx SimObject_Cube = 0"
| "SimObject_idx SimObject_Wall = 1"
| "SimObject_idx SimObject_Door = 2"
| "SimObject_idx SimObject_Agent = 3"
| "SimObject_idx SimObject_Button = 4"
| "SimObject_idx SimObject_Key = 5"
| "SimObject_idx SimObject_Plane = 6"
| "SimObject_idx SimObject_NumObjects = 7"

subsection \<open>Types the file takes from its headers and from the madrona library\<close>

text \<open>
  \<^verbatim>\<open>mgr.hpp\<close>, \<^verbatim>\<open>types.hpp\<close> and \<^verbatim>\<open>consts.hpp\<close> are not among the
  sources. The records below hold the fields \<^verbatim>\<open>mgr.cpp\<close> reads and writes, with the
  types its casts and initialisers show: \<^verbatim>\<open>numWorlds\<close> is an unsigned 32-bit count
  (it is cast to \<^verbatim>\<open>int32_t\<close> and \<^verbatim>\<open>int64_t\<close> where a signed bound is wanted and
  initialises an \<^verbatim>\<open>int64_t\<close> dimension in a braced list), \<^verbatim>\<open>gpuID\<close> is an
  \<^verbatim>\<open>int\<close>. The selector \<^verbatim>\<open>ExecMode\<close> has the two values the switch of
  \<^verbatim>\<open>init\<close> names; \<open>ExecMode_Other\<close> stands for every other value of its
  underlying type, the \<^verbatim>\<open>default\<close> branch.
\<close>

datatype ExecMode = ExecMode_CPU | ExecMode_CUDA | ExecMode_Other

record Config =
  execMode :: ExecMode
  gpuID :: int32_t
  numWorlds :: uint32_t
  autoReset :: bool
  simFlags :: uint32_t
  rewardMode :: uint32_t
  buttonWidth :: float32
  doorWidth :: float32

text \<open>
  The control records: \<^verbatim>\<open>WorldReset\<close>, \<^verbatim>\<open>CheckpointSave\<close> and
  \<^verbatim>\<open>CheckpointReset\<close> are each one \<^verbatim>\<open>int32_t\<close> (they are brace-initialised
  from one integer), \<^verbatim>\<open>Action\<close> is the four integers \<^verbatim>\<open>setAction\<close> names.
\<close>

type_synonym WorldReset = int32_t
type_synonym CheckpointSave = int32_t
type_synonym CheckpointReset = int32_t

record Action =
  moveAmount :: int32_t
  moveAngle :: int32_t
  rotate :: int32_t
  interact :: int32_t

subsection \<open>Physics assets\<close>

text \<open>
  The importer and the rigid-body processing belong to the madrona library. An imported
  convex hull is known by its identity only; \<open>objects a ! i\<close> is
  \<^verbatim>\<open>a.objects[i].meshes\<close>. Of the rigid-body catalog the file touches
  \<^verbatim>\<open>metadatas[i].mass.invInertiaTensor\<close>; the fields it never names are kept in
  one opaque field per record. The components of a vector are called \<open>vec_x\<close>,
  \<open>vec_y\<close>, \<open>vec_z\<close> for \<^verbatim>\<open>x\<close>, \<^verbatim>\<open>y\<close>, \<^verbatim>\<open>z\<close>.
\<close>

datatype SourceMesh = SourceMesh nat

record ImportedAssets =
  objects :: "SourceMesh list list"

datatype SourceCollisionPrimitive = Prim_Hull uint32_t | Prim_Plane

record RigidBodyFrictionData =
  muS :: float32
  muD :: float32

record SourceCollisionObject =
  prims :: "SourceCollisionPrimitive list"
  invMass :: float32
  friction :: RigidBodyFrictionData

record Vector3 =
  vec_x :: float32
  vec_y :: float32
  vec_z :: float32

record RigidBodyMassData =
  invInertiaTensor :: Vector3
  massOther :: nat

record RigidBodyMetadata =
  mass :: RigidBodyMassData
  metadataOther :: nat

record RigidBodyAssets =
  metadatas :: "RigidBodyMetadata list"
  assetsOther :: nat

text \<open>
  The physics loader is constructed with a mode and a capacity and is handed catalogs by
  \<^verbatim>\<open>loadRigidBodies\<close>; the model records what it was handed.
\<close>

record PhysicsLoader =
  loaderMode :: ExecMode
  maxObjects :: int
  loadedRigidBodies :: "RigidBodyAssets list"

definition newPhysicsLoader :: "ExecMode \<Rightarrow> int \<Rightarrow> PhysicsLoader" where
  "newPhysicsLoader mode n = \<lparr>loaderMode = mode, maxObjects = n, loadedRigidBodies = []\<rparr>"

definition loadRigidBodies :: "PhysicsLoader \<Rightarrow> RigidBodyAssets \<Rightarrow> PhysicsLoader" where
  "loadRigidBodies loader assets =
     loader\<lparr>loadedRigidBodies := loadedRigidBodies loader @ [assets]\<rparr>"

text \<open>The float constants of the file, as IEEE-754 single-precision bit patterns.\<close>

definition f32_0 :: float32 where "f32_0 = 0"
definition f32_0_075 :: float32 where "f32_0_075 = 0x3D99999A"
definition f32_0_5 :: float32 where "f32_0_5 = 0x3F000000"
definition f32_0_75 :: float32 where "f32_0_75 = 0x3F400000"
definition f32_1 :: float32 where "f32_1 = 0x3F800000"

subsection \<open>The simulation executor\<close>

text \<open>
  \<^verbatim>\<open>Sim::Config\<close> as src/sim.hpp declares it, and the per-world initialisation record.
  The episode counter and the progress value are shared objects the records point to; the
  model keeps their initial values.
\<close>

record Sim_Config =
  enableViewer :: bool
  sim_autoReset :: bool
  sim_simFlags :: uint32_t
  sim_rewardMode :: uint32_t
  sim_buttonWidth :: float32
  sim_doorWidth :: float32
  rewardPerDist :: float32
  slackReward :: float32

record WorldInit =
  wi_episodeMgr :: uint32_t
  wi_physObjMgr :: PhysicsLoader
  wi_vizBridge :: ptr
  wi_progress :: float32

text \<open>
  The memory an executor exports. The four control arrays the Manager writes are the arrays
  behind the export slots \<open>Reset\<close>, \<open>CheckpointSave\<close>, \<open>CheckpointReset\<close> and
  \<open>Action\<close>; they are distinct allocations of the executor. Everything else the
  executor holds (the worlds, the other exported arrays) is the opaque \<open>exp_sim\<close>.
\<close>

record 'w Exported =
  exp_Reset :: "WorldReset list"
  exp_CheckpointSave :: "CheckpointSave list"
  exp_CheckpointReset :: "CheckpointReset list"
  exp_Action :: "Action list"
  exp_sim :: 'w

subsection \<open>What the file takes from outside\<close>

text \<open>
  Compile-time definitions (\<^verbatim>\<open>MADRONA_CUDA_SUPPORT\<close>, \<^verbatim>\<open>DATA_DIR\<close>), the
  constants of \<^verbatim>\<open>consts.hpp\<close> (of type \<^verbatim>\<open>CountT\<close>, a signed 32-bit integer),
  two \<^verbatim>\<open>sizeof\<close> values of \<^verbatim>\<open>types.hpp\<close>, and the functions of the madrona
  library the file calls:
  \<^item> \<open>data_path name\<close> is \<^verbatim>\<open>(std::filesystem::path(DATA_DIR) / name).string()\<close>;
  \<^item> \<open>importFromDisk paths one_object_per_asset\<close> is the imported assets, or
    \<open>Inl\<close> of the text left in the error buffer;
  \<^item> \<open>processRigidBodyAssets hulls objs build_hulls\<close> is the catalog, or \<open>None\<close>
    where the library returns \<^verbatim>\<open>nullptr\<close>;
  \<^item> \<open>newExecutor mode cfg inits n_worlds n_exports\<close> is the memory a freshly
    constructed executor exports;
  \<^item> \<open>executor_run\<close> is one pass of the task graph over all worlds;
  \<^item> \<open>getExported sim slot\<close> is the address of an export slot.
  The calls of the CUDA runtime are taken to succeed, so that \<^verbatim>\<open>REQ_CUDA\<close> passes.
\<close>

record 'w Env =
  MADRONA_CUDA_SUPPORT :: bool
  data_path :: "string \<Rightarrow> string"
  numAgents :: int32_t
  maxObservationsPerAgent :: int32_t
  numLidarSamples :: int32_t
  sizeof_Checkpoint :: uint64_t
  sizeof_SelfObservation :: uint64_t
  importFromDisk :: "string list \<Rightarrow> bool \<Rightarrow> string + ImportedAssets"
  processRigidBodyAssets ::
    "SourceMesh list \<Rightarrow> SourceCollisionObject option list \<Rightarrow> bool \<Rightarrow> RigidBodyAssets option"
  newExecutor ::
    "ExecMode \<Rightarrow> Sim_Config \<Rightarrow> WorldInit list \<Rightarrow> uint32_t \<Rightarrow> uint32_t \<Rightarrow> 'w Exported"
  executor_run :: "'w Exported \<Rightarrow> 'w Exported"
  getExported :: "'w \<Rightarrow> uint32_t \<Rightarrow> ptr"

subsection \<open>loadPhysicsObjects\<close>

text \<open>
  The locals the lambda \<^verbatim>\<open>setupHull\<close> captures by reference. \<^verbatim>\<open>src_objs\<close> is
  allocated with \<open>NumObjects\<close> uninitialised entries; an entry not yet assigned is
  \<open>None\<close>.
\<close>

record HullSetup =
  src_convex_hulls :: "SourceMesh list"
  prim_arrays :: "SourceCollisionPrimitive list list"
  src_objs :: "SourceCollisionObject option list"

text \<open>
  The loop of \<^verbatim>\<open>setupHull\<close> over the meshes of one object: each mesh is appended to
  the hulls, and a hull primitive with the index of the hull just appended
  (\<^verbatim>\<open>uint32_t(src_convex_hulls.size() - 1)\<close>) is appended to the object's primitives.
\<close>

fun push_meshes ::
  "SourceMesh list \<Rightarrow> SourceMesh list \<Rightarrow> SourceCollisionPrimitive list
     \<Rightarrow> SourceMesh list \<times> SourceCollisionPrimitive list" where
  "push_meshes [] hulls ps = (hulls, ps)"
| "push_meshes (mesh # rest) hulls ps =
     push_meshes rest (hulls @ [mesh])
       (ps @ [Prim_Hull (of_nat (length (hulls @ [mesh]) - 1))])"

definition setupHull ::
  "ImportedAssets \<Rightarrow> SimObject \<Rightarrow> float32 \<Rightarrow> RigidBodyFrictionData \<Rightarrow> HullSetup
     \<Rightarrow> error + HullSetup" where
  "setupHull imported obj_id inv_mass fr st =
     (let i = SimObject_idx obj_id in
      if i < length (objects imported) \<and> i < length (src_objs st) then
        (case push_meshes (objects imported ! i) (src_convex_hulls st) [] of
           (hulls, ps) \<Rightarrow>
             Inr (st\<lparr>src_convex_hulls := hulls,
                      prim_arrays := prim_arrays st @ [ps],
                      src_objs := (src_objs st)
                        [i := Some \<lparr>prims = ps, invMass = inv_mass, friction = fr\<rparr>]\<rparr>))
      else Inl UndefinedBehaviour)"

definition asset_paths :: "'w Env \<Rightarrow> string list" where
  "asset_paths env =
     [data_path env ''cube_collision.obj'',
      data_path env ''wall_collision.obj'',
      data_path env ''wall_collision.obj'',
      data_path env ''agent_collision_simplified.obj'',
      data_path env ''cube_collision.obj'',
      data_path env ''cube_collision.obj'']"

definition setupHulls :: "ImportedAssets \<Rightarrow> error + HullSetup" where
  "setupHulls imported =
     bindE (setupHull imported SimObject_Cube f32_0_075 \<lparr>muS = f32_0_5, muD = f32_0_75\<rparr>
              \<lparr>src_convex_hulls = [], prim_arrays = [],
               src_objs = replicate (SimObject_idx SimObject_NumObjects) None\<rparr>) (\<lambda>s1.
     bindE (setupHull imported SimObject_Wall f32_0 \<lparr>muS = f32_0_5, muD = f32_0_5\<rparr> s1) (\<lambda>s2.
     bindE (setupHull imported SimObject_Door f32_0 \<lparr>muS = f32_0_5, muD = f32_0_5\<rparr> s2) (\<lambda>s3.
     bindE (setupHull imported SimObject_Agent f32_1 \<lparr>muS = f32_0_5, muD = f32_0_5\<rparr> s3) (\<lambda>s4.
     bindE (setupHull imported SimObject_Button f32_1 \<lparr>muS = f32_0_5, muD = f32_0_5\<rparr> s4) (\<lambda>s5.
     bindE (setupHull imported SimObject_Key f32_1 \<lparr>muS = f32_0_5, muD = f32_0_5\<rparr> s5) (\<lambda>s6.
     Inr (s6\<lparr>src_objs := (src_objs s6)
            [SimObject_idx SimObject_Plane :=
               Some \<lparr>prims = [Prim_Plane], invMass = f32_0,
                     friction = \<lparr>muS = f32_0_5, muD = f32_0_5\<rparr>\<rparr>]\<rparr>)))))))"

text \<open>
  The two assignments after the processing: the \<^verbatim>\<open>x\<close> and the \<^verbatim>\<open>y\<close> component
  of the agent's inverse inertia tensor become \<^verbatim>\<open>0.f\<close>.
\<close>

definition set_invInertia_x :: "float32 \<Rightarrow> RigidBodyMetadata \<Rightarrow> RigidBodyMetadata" where
  "set_invInertia_x v md =
     md\<lparr>mass := (mass md)\<lparr>invInertiaTensor := (invInertiaTensor (mass md))\<lparr>vec_x := v\<rparr>\<rparr>\<rparr>"

definition set_invInertia_y :: "float32 \<Rightarrow> RigidBodyMetadata \<Rightarrow> RigidBodyMetadata" where
  "set_invInertia_y v md =
     md\<lparr>mass := (mass md)\<lparr>invInertiaTensor := (invInertiaTensor (mass md))\<lparr>vec_y := v\<rparr>\<rparr>\<rparr>"

definition constrain_agent :: "RigidBodyAssets \<Rightarrow> error + RigidBodyAssets" where
  "constrain_agent assets =
     (let i = SimObject_idx SimObject_Agent in
      if i < length (metadatas assets) then
        (let a1 = assets\<lparr>metadatas := (metadatas assets)
                    [i := set_invInertia_x f32_0 (metadatas assets ! i)]\<rparr>;
             a2 = a1\<lparr>metadatas := (metadatas a1)
                    [i := set_invInertia_y f32_0 (metadatas a1 ! i)]\<rparr>
         in Inr a2)
      else Inl UndefinedBehaviour)"

definition loadPhysicsObjects :: "'w Env \<Rightarrow> PhysicsLoader \<Rightarrow> error + PhysicsLoader" where
  "loadPhysicsObjects env loader =
     (case importFromDisk env (asset_paths env) True of
        Inl import_err_buffer \<Rightarrow> Inl (FATAL import_err_buffer)
      | Inr imported_src_hulls \<Rightarrow>
          bindE (setupHulls imported_src_hulls) (\<lambda>st.
            (case processRigidBodyAssets env (src_convex_hulls st) (src_objs st) False of
               None \<Rightarrow> Inl (FATAL ''Invalid collision hull input'')
             | Some rigid_body_assets \<Rightarrow>
                 bindE (constrain_agent rigid_body_assets) (\<lambda>constrained.
                   Inr (loadRigidBodies loader constrained)))))"

subsection \<open>Manager::Impl and its construction\<close>

text \<open>
  \<^verbatim>\<open>Manager::Impl\<close> with its two final subclasses. The four buffer members are
  pointers into the executor's exported memory; the model holds the array each one points
  to, and \<open>executor\<close> is the rest of \<^verbatim>\<open>cpuExec\<close> or \<^verbatim>\<open>gpuExec\<close>. (The
  pointer to the episode counter, which only the destructor uses, is left out.)
\<close>

datatype ImplKind = CPUImpl | CUDAImpl

record 'w Impl =
  implKind :: ImplKind
  cfg :: Config
  physicsLoader :: PhysicsLoader
  worldResetBuffer :: "WorldReset list"
  worldSaveCheckpointBuffer :: "CheckpointSave list"
  worldLoadCheckpointBuffer :: "CheckpointReset list"
  agentActionsBuffer :: "Action list"
  executor :: 'w

definition new_Impl ::
  "ImplKind \<Rightarrow> Config \<Rightarrow> PhysicsLoader \<Rightarrow> 'w Exported \<Rightarrow> 'w Impl" where
  "new_Impl k mgr_cfg phys_loader ex =
     \<lparr>implKind = k, cfg = mgr_cfg, physicsLoader = phys_loader,
      worldResetBuffer = exp_Reset ex,
      worldSaveCheckpointBuffer = exp_CheckpointSave ex,
      worldLoadCheckpointBuffer = exp_CheckpointReset ex,
      agentActionsBuffer = exp_Action ex,
      executor = exp_sim ex\<rparr>"

definition make_sim_cfg :: "Config \<Rightarrow> ptr \<Rightarrow> Sim_Config" where
  "make_sim_cfg mgr_cfg viz_bridge =
     \<lparr>enableViewer = (viz_bridge \<noteq> 0),
      sim_autoReset = autoReset mgr_cfg,
      sim_simFlags = simFlags mgr_cfg,
      sim_rewardMode = rewardMode mgr_cfg,
      sim_buttonWidth = buttonWidth mgr_cfg,
      sim_doorWidth = doorWidth mgr_cfg,
      rewardPerDist = f32_0,
      slackReward = f32_0\<rparr>"

text \<open>
  The loop \<^verbatim>\<open>for (int64_t i = 0; i < (int64_t)mgr_cfg.numWorlds; i++)\<close> assigns the same
  record to every entry of \<^verbatim>\<open>world_inits\<close>.
\<close>

definition make_world_inits :: "Config \<Rightarrow> PhysicsLoader \<Rightarrow> ptr \<Rightarrow> WorldInit list" where
  "make_world_inits mgr_cfg phys_loader viz_bridge =
     replicate (unat (numWorlds mgr_cfg))
       \<lparr>wi_episodeMgr = 0, wi_physObjMgr = phys_loader,
        wi_vizBridge = viz_bridge, wi_progress = f32_0\<rparr>"

text \<open>
  \<^verbatim>\<open>Manager::Impl::init\<close>. It returns a pointer; \<open>None\<close> would be the null pointer.
  Under \<^verbatim>\<open>MADRONA_CUDA_SUPPORT\<close> the CUDA branch builds a \<open>CUDAImpl\<close>, otherwise the
  branch is the \<^verbatim>\<open>FATAL\<close> of the \<^verbatim>\<open>#else\<close>.
\<close>

definition init :: "'w Env \<Rightarrow> Config \<Rightarrow> ptr \<Rightarrow> error + 'w Impl option" where
  "init env mgr_cfg viz_bridge =
     (let sim_cfg = make_sim_cfg mgr_cfg viz_bridge in
      case execMode mgr_cfg of
        ExecMode_CUDA \<Rightarrow>
          (if MADRONA_CUDA_SUPPORT env then
             bindE (loadPhysicsObjects env (newPhysicsLoader ExecMode_CUDA 10)) (\<lambda>phys_loader.
               (let world_inits = make_world_inits mgr_cfg phys_loader viz_bridge;
                    gpu_exec = newExecutor env ExecMode_CUDA sim_cfg world_inits
                                 (numWorlds mgr_cfg) (ExportID_u32 ExportID_NumExports)
                in Inr (Some (new_Impl CUDAImpl mgr_cfg phys_loader gpu_exec))))
           else Inl (FATAL ''Madrona was not compiled with CUDA support''))
      | ExecMode_CPU \<Rightarrow>
          bindE (loadPhysicsObjects env (newPhysicsLoader ExecMode_CPU 10)) (\<lambda>phys_loader.
            (let world_inits = make_world_inits mgr_cfg phys_loader viz_bridge;
                 cpu_exec = newExecutor env ExecMode_CPU sim_cfg world_inits
                              (numWorlds mgr_cfg) (ExportID_u32 ExportID_NumExports)
             in Inr (Some (new_Impl CPUImpl mgr_cfg phys_loader cpu_exec))))
      | ExecMode_Other \<Rightarrow> Inl MADRONA_UNREACHABLE)"

subsection \<open>The per-world control operations\<close>

text \<open>
  A store through \<^verbatim>\<open>buffer + idx\<close>: inside the array it replaces the slot, outside it
  is undefined behaviour. \<^verbatim>\<open>cudaMemcpy\<close> from the host record to the device slot and
  the plain assignment have this same effect on the array.
\<close>

definition write_at :: "'a list \<Rightarrow> int \<Rightarrow> 'a \<Rightarrow> error + 'a list" where
  "write_at buf i v =
     (if 0 \<le> i \<and> i < int (length buf) then Inr (buf[nat i := v])
      else Inl UndefinedBehaviour)"

text \<open>Signed 32-bit arithmetic: a result outside the type is undefined behaviour.\<close>

definition i32_mul :: "int32_t \<Rightarrow> int32_t \<Rightarrow> error + int32_t" where
  "i32_mul a b =
     (if - (2 ^ 31) \<le> sint a * sint b \<and> sint a * sint b < 2 ^ 31 then Inr (a * b)
      else Inl UndefinedBehaviour)"

definition i32_add :: "int32_t \<Rightarrow> int32_t \<Rightarrow> error + int32_t" where
  "i32_add a b =
     (if - (2 ^ 31) \<le> sint a + sint b \<and> sint a + sint b < 2 ^ 31 then Inr (a + b)
      else Inl UndefinedBehaviour)"

definition run :: "'w Env \<Rightarrow> 'w Impl \<Rightarrow> 'w Impl" where
  "run env m =
     (let ex = executor_run env
                 \<lparr>exp_Reset = worldResetBuffer m,
                  exp_CheckpointSave = worldSaveCheckpointBuffer m,
                  exp_CheckpointReset = worldLoadCheckpointBuffer m,
                  exp_Action = agentActionsBuffer m,
                  exp_sim = executor m\<rparr>
      in m\<lparr>worldResetBuffer := exp_Reset ex,
           worldSaveCheckpointBuffer := exp_CheckpointSave ex,
           worldLoadCheckpointBuffer := exp_CheckpointReset ex,
           agentActionsBuffer := exp_Action ex,
           executor := exp_sim ex\<rparr>)"

definition step :: "'w Env \<Rightarrow> 'w Impl \<Rightarrow> 'w Impl" where
  "step env m = run env m"

definition triggerReset :: "'w Env \<Rightarrow> 'w Impl \<Rightarrow> int32_t \<Rightarrow> error + 'w Impl" where
  "triggerReset env m world_idx =
     (let reset = (1 :: WorldReset) in
      if execMode (cfg m) = ExecMode_CUDA then
        (if MADRONA_CUDA_SUPPORT env then
           bindE (write_at (worldResetBuffer m) (sint world_idx) reset)
             (\<lambda>buf. Inr (m\<lparr>worldResetBuffer := buf\<rparr>))
         else Inr m)
      else
        bindE (write_at (worldResetBuffer m) (sint world_idx) reset)
          (\<lambda>buf. Inr (m\<lparr>worldResetBuffer := buf\<rparr>)))"

definition setAction ::
  "'w Env \<Rightarrow> 'w Impl \<Rightarrow> int32_t \<Rightarrow> int32_t \<Rightarrow> int32_t \<Rightarrow> int32_t \<Rightarrow> int32_t \<Rightarrow> int32_t
     \<Rightarrow> error + 'w Impl" where
  "setAction env m world_idx agent_idx move_amount move_angle rotate_v interact_v =
     (let action = \<lparr>moveAmount = move_amount, moveAngle = move_angle,
                    rotate = rotate_v, interact = interact_v\<rparr> in
      bindE (i32_mul world_idx (numAgents env)) (\<lambda>row.
      bindE (i32_add row agent_idx) (\<lambda>flat.
        if execMode (cfg m) = ExecMode_CUDA then
          (if MADRONA_CUDA_SUPPORT env then
             bindE (write_at (agentActionsBuffer m) (sint flat) action)
               (\<lambda>buf. Inr (m\<lparr>agentActionsBuffer := buf\<rparr>))
           else Inr m)
        else
          bindE (write_at (agentActionsBuffer m) (sint flat) action)
            (\<lambda>buf. Inr (m\<lparr>agentActionsBuffer := buf\<rparr>)))))"

definition setSaveCheckpoint ::
  "'w Env \<Rightarrow> 'w Impl \<Rightarrow> int32_t \<Rightarrow> int32_t \<Rightarrow> error + 'w Impl" where
  "setSaveCheckpoint env m world_idx v =
     (let save = (v :: CheckpointSave) in
      if execMode (cfg m) = ExecMode_CUDA then
        (if MADRONA_CUDA_SUPPORT env then
           bindE (write_at (worldSaveCheckpointBuffer m) (sint world_idx) save)
             (\<lambda>buf. Inr (m\<lparr>worldSaveCheckpointBuffer := buf\<rparr>))
         else Inr m)
      else
        bindE (write_at (worldSaveCheckpointBuffer m) (sint world_idx) save)
          (\<lambda>buf. Inr (m\<lparr>worldSaveCheckpointBuffer := buf\<rparr>)))"

definition triggerLoadCheckpoint :: "'w Env \<Rightarrow> 'w Impl \<Rightarrow> int32_t \<Rightarrow> error + 'w Impl" where
  "triggerLoadCheckpoint env m world_idx =
     (let load = (1 :: CheckpointReset) in
      if execMode (cfg m) = ExecMode_CUDA then
        (if MADRONA_CUDA_SUPPORT env then
           bindE (write_at (worldLoadCheckpointBuffer m) (sint world_idx) load)
             (\<lambda>buf. Inr (m\<lparr>worldLoadCheckpointBuffer := buf\<rparr>))
         else Inr m)
      else
        bindE (write_at (worldLoadCheckpointBuffer m) (sint world_idx) load)
          (\<lambda>buf. Inr (m\<lparr>worldLoadCheckpointBuffer := buf\<rparr>)))"

subsection \<open>The constructor\<close>

text \<open>
  The loop \<^verbatim>\<open>for (int32_t i = 0; i < (int32_t)cfg.numWorlds; i++) triggerReset(i);\<close>
  with its signed comparison. The increment cannot overflow: it runs only where
  \<open>i\<close> is below a 32-bit bound.
\<close>

function reset_loop :: "'w Env \<Rightarrow> int32_t \<Rightarrow> int32_t \<Rightarrow> 'w Impl \<Rightarrow> error + 'w Impl" where
  "reset_loop env i n m =
     (if i <s n then
        (case triggerReset env m i of
           Inl e \<Rightarrow> Inl e
         | Inr m' \<Rightarrow> reset_loop env (i + 1) n m')
      else Inr m)"
  by pat_completeness auto
termination
proof (relation "measure (\<lambda>(env, i, n, m). nat (sint n - sint i))")
  show "wf (measure (\<lambda>(env :: 'w Env, i :: int32_t, n :: int32_t, m :: 'w Impl).
              nat (sint n - sint i)))"
    by simp
next
  fix env :: "'w Env" and i n :: int32_t and m m' :: "'w Impl"
  assume lt: "i <s n"
  have "sint n < 2 ^ 31"
    using sint_lt [of n] by simp
  with lt have bound: "sint i + 1 < 2 ^ 31"
    by (simp add: word_sless_alt)
  have "- (2 ^ 31) \<le> sint i"
    using sint_ge [of i] by simp
  with bound have "sint (i + 1) = sint i + 1"
    by (simp add: sint_word_ariths signed_take_bit_int_eq_self)
  with lt show "((env, i + 1, n, m'), (env, i, n, m))
      \<in> measure (\<lambda>(env, i, n, m). nat (sint n - sint i))"
    by (simp add: word_sless_alt)
qed

text \<open>
  \<^verbatim>\<open>Manager::Manager\<close>: the member initialiser calls \<^verbatim>\<open>init\<close>, the body runs the
  reset loop over \<^verbatim>\<open>(int32_t)cfg.numWorlds\<close> and then \<^verbatim>\<open>step()\<close>. Every use of
  \<^verbatim>\<open>impl_\<close> dereferences the pointer \<^verbatim>\<open>init\<close> returned.
\<close>

definition Manager :: "'w Env \<Rightarrow> Config \<Rightarrow> ptr \<Rightarrow> error + 'w Impl" where
  "Manager env cfg0 viz_bridge =
     bindE (init env cfg0 viz_bridge) (\<lambda>impl_ptr.
       (case impl_ptr of
          None \<Rightarrow> Inl UndefinedBehaviour
        | Some m0 \<Rightarrow>
            bindE (reset_loop env 0 (numWorlds cfg0) m0) (\<lambda>m1. Inr (step env m1))))"

subsection \<open>Exported tensors\<close>

text \<open>
  A \<^verbatim>\<open>Tensor\<close> is a device pointer, an element type, the dimensions (each an
  \<^verbatim>\<open>int64_t\<close>) and an optional GPU id. Of \<^verbatim>\<open>Tensor::ElementType\<close> the file
  names three values.
\<close>

datatype ElementType = ElementType_UInt8 | ElementType_Int32 | ElementType_Float32

record Tensor =
  devicePtr :: ptr
  elemType :: ElementType
  dims :: "int64_t list"
  tensorGpuID :: "int32_t option"

definition exportTensor ::
  "'w Env \<Rightarrow> 'w Impl \<Rightarrow> ExportID \<Rightarrow> ElementType \<Rightarrow> int64_t list \<Rightarrow> Tensor" where
  "exportTensor env m slot ty ds =
     (case implKind m of
        CPUImpl \<Rightarrow>
          \<lparr>devicePtr = getExported env (executor m) (ExportID_u32 slot),
           elemType = ty, dims = ds, tensorGpuID = None\<rparr>
      | CUDAImpl \<Rightarrow>
          \<lparr>devicePtr = getExported env (executor m) (ExportID_u32 slot),
           elemType = ty, dims = ds, tensorGpuID = Some (gpuID (cfg m))\<rparr>)"

text \<open>
  The accessors. A dimension is converted to \<^verbatim>\<open>int64_t\<close> from the type of its
  expression: \<^verbatim>\<open>numWorlds\<close> and \<^verbatim>\<open>numWorlds * consts::numAgents\<close> are unsigned
  32-bit values (the product wraps at \<open>2 ^ 32\<close>) and are zero-extended; the constants of
  \<^verbatim>\<open>consts.hpp\<close> are signed and are sign-extended; \<^verbatim>\<open>sizeof\<close> is 64 bits wide.
\<close>

definition checkpointResetTensor :: "'w Env \<Rightarrow> 'w Impl \<Rightarrow> Tensor" where
  "checkpointResetTensor env m =
     exportTensor env m ExportID_CheckpointReset ElementType_Int32
       [ucast (numWorlds (cfg m)), 1]"

definition checkpointTensor :: "'w Env \<Rightarrow> 'w Impl \<Rightarrow> Tensor" where
  "checkpointTensor env m =
     exportTensor env m ExportID_Checkpoint ElementType_UInt8
       [ucast (numWorlds (cfg m)), sizeof_Checkpoint env]"

definition resetTensor :: "'w Env \<Rightarrow> 'w Impl \<Rightarrow> Tensor" where
  "resetTensor env m =
     exportTensor env m ExportID_Reset ElementType_Int32
       [ucast (numWorlds (cfg m)), 1]"

definition actionTensor :: "'w Env \<Rightarrow> 'w Impl \<Rightarrow> Tensor" where
  "actionTensor env m =
     exportTensor env m ExportID_Action ElementType_Int32
       [ucast (numWorlds (cfg m) * numAgents env), 4]"

definition rewardTensor :: "'w Env \<Rightarrow> 'w Impl \<Rightarrow> Tensor" where
  "rewardTensor env m =
     exportTensor env m ExportID_Reward ElementType_Float32
       [ucast (numWorlds (cfg m) * numAgents env), 1]"

definition doneTensor :: "'w Env \<Rightarrow> 'w Impl \<Rightarrow> Tensor" where
  "doneTensor env m =
     exportTensor env m ExportID_Done ElementType_Int32
       [ucast (numWorlds (cfg m) * numAgents env), 1]"

definition selfObservationTensor :: "'w Env \<Rightarrow> 'w Impl \<Rightarrow> Tensor" where
  "selfObservationTensor env m =
     exportTensor env m ExportID_SelfObservation ElementType_Float32
       [ucast (numWorlds (cfg m) * numAgents env), sizeof_SelfObservation env div 4]"

definition partnerObservationsTensor :: "'w Env \<Rightarrow> 'w Impl \<Rightarrow> Tensor" where
  "partnerObservationsTensor env m =
     exportTensor env m ExportID_PartnerObservations ElementType_Float32
       [ucast (numWorlds (cfg m) * numAgents env), scast (numAgents env - 1), 3]"

definition roomEntityObservationsTensor :: "'w Env \<Rightarrow> 'w Impl \<Rightarrow> Tensor" where
  "roomEntityObservationsTensor env m =
     exportTensor env m ExportID_RoomEntityObservations ElementType_Float32
       [ucast (numWorlds (cfg m) * numAgents env), scast (maxObservationsPerAgent env), 3]"

definition doorObservationTensor :: "'w Env \<Rightarrow> 'w Impl \<Rightarrow> Tensor" where
  "doorObservationTensor env m =
     exportTensor env m ExportID_DoorObservation ElementType_Float32
       [ucast (numWorlds (cfg m) * numAgents env), 1, 3]"

definition lidarTensor :: "'w Env \<Rightarrow> 'w Impl \<Rightarrow> Tensor" where
  "lidarTensor env m =
     exportTensor env m ExportID_Lidar ElementType_Float32
       [ucast (numWorlds (cfg m) * numAgents env), scast (numLidarSamples env), 2]"

definition stepsRemainingTensor :: "'w Env \<Rightarrow> 'w Impl \<Rightarrow> Tensor" where
  "stepsRemainingTensor env m =
     exportTensor env m ExportID_StepsRemaining ElementType_Int32
       [ucast (numWorlds (cfg m) * numAgents env), 1]"

definition agentIDTensor :: "'w Env \<Rightarrow> 'w Impl \<Rightarrow> Tensor" where
  "agentIDTensor env m =
     exportTensor env m ExportID_AgentID ElementType_Int32
       [ucast (numWorlds (cfg m) * numAgents env), 1]"

text \<open>Every tensor accessor \<^verbatim>\<open>mgr.cpp\<close> defines, in the order of the file.\<close>

definition tensor_accessors :: "('w Env \<Rightarrow> 'w Impl \<Rightarrow> Tensor) list" where
  "tensor_accessors =
     [checkpointResetTensor, checkpointTensor, resetTensor, actionTensor, rewardTensor,
      doneTensor, selfObservationTensor, partnerObservationsTensor,
      roomEntityObservationsTensor, doorObservationTensor, lidarTensor,
      stepsRemainingTensor, agentIDTensor]"

definition is_32bit_number :: "ElementType \<Rightarrow> bool" where
  "is_32bit_number ty =
     (case ty of ElementType_UInt8 \<Rightarrow> False | ElementType_Int32 \<Rightarrow> True
        | ElementType_Float32 \<Rightarrow> True)"

subsection \<open>The training interface\<close>

record NamedTensor =
  name :: string
  hdl :: Tensor

record TrainInterface =
  observations :: "NamedTensor list"
  actions :: Tensor
  rewards :: Tensor
  dones :: Tensor
  resets :: Tensor
  policyAssignments :: "Tensor option"
  stats :: "NamedTensor list"

text \<open>
  \<^verbatim>\<open>Manager::trainInterface\<close> passes seven observations, the four tensors and no policy
  assignment; it passes no statistics.
\<close>

definition trainInterface :: "'w Env \<Rightarrow> 'w Impl \<Rightarrow> TrainInterface" where
  "trainInterface env m =
     \<lparr>observations =
        [\<lparr>name = ''self'', hdl = selfObservationTensor env m\<rparr>,
         \<lparr>name = ''partners'', hdl = partnerObservationsTensor env m\<rparr>,
         \<lparr>name = ''roomEntities'', hdl = roomEntityObservationsTensor env m\<rparr>,
         \<lparr>name = ''door'', hdl = doorObservationTensor env m\<rparr>,
         \<lparr>name = ''lidar'', hdl = lidarTensor env m\<rparr>,
         \<lparr>name = ''stepsRemaining'', hdl = stepsRemainingTensor env m\<rparr>,
         \<lparr>name = ''agentID'', hdl = agentIDTensor env m\<rparr>],
      actions = actionTensor env m,
      rewards = rewardTensor env m,
      dones = doneTensor env m,
      resets = resetTensor env m,
      policyAssignments = None,
      stats = []\<rparr>"

subsection \<open>The GPU rollout\<close>

text \<open>
  What a call leaves on a CUDA stream: asynchronous copies and the launch of the step. The
  rollout is modelled by the operations it enqueues, in order.
\<close>

datatype cudaMemcpyKind = cudaMemcpyHostToDevice | cudaMemcpyDeviceToDevice

datatype stream_op =
    cudaMemcpyAsync (op_dst: ptr) (op_src: ptr) (op_count: uint64_t)
      (op_kind: cudaMemcpyKind) (op_stream: cudaStream_t)
  | runAsync (op_stream: cudaStream_t)

text \<open>
  Modelled from the spec: \<^verbatim>\<open>Tensor::numBytesPerItem\<close> is a method of the madrona
  library, not among the sources. The spec calls it the element width in bytes: one byte
  for an 8-bit element, four for a 32-bit integer or float.
\<close>

definition numBytesPerItem :: "Tensor \<Rightarrow> int64_t" where
  "numBytesPerItem t =
     (case elemType t of ElementType_UInt8 \<Rightarrow> 1 | ElementType_Int32 \<Rightarrow> 4
        | ElementType_Float32 \<Rightarrow> 4)"

text \<open>
  The lambda \<^verbatim>\<open>numTensorBytes\<close>: the loop multiplies the dimensions into an unsigned
  64-bit accumulator, from the first to the last.
\<close>

fun num_items_loop :: "uint64_t \<Rightarrow> int64_t list \<Rightarrow> uint64_t" where
  "num_items_loop num_items [] = num_items"
| "num_items_loop num_items (d # ds) = num_items_loop (num_items * d) ds"

definition numTensorBytes :: "Tensor \<Rightarrow> uint64_t" where
  "numTensorBytes t = num_items_loop 1 (dims t) * numBytesPerItem t"

definition copyToSim :: "cudaStream_t \<Rightarrow> Tensor \<Rightarrow> ptr \<Rightarrow> stream_op list \<Rightarrow> stream_op list" where
  "copyToSim strm dst_t src_p q =
     (let num_bytes = numTensorBytes dst_t in
      q @ [cudaMemcpyAsync (devicePtr dst_t) src_p num_bytes cudaMemcpyDeviceToDevice strm])"

definition copyFromSim :: "cudaStream_t \<Rightarrow> ptr \<Rightarrow> Tensor \<Rightarrow> stream_op list \<Rightarrow> stream_op list" where
  "copyFromSim strm dst_p src_t q =
     (let num_bytes = numTensorBytes src_t in
      q @ [cudaMemcpyAsync dst_p (devicePtr src_t) num_bytes cudaMemcpyDeviceToDevice strm])"

text \<open>
  \<^verbatim>\<open>buffers\<close> is the caller's array of pointers; \<^verbatim>\<open>input_buffers\<close> and
  \<^verbatim>\<open>output_buffers\<close> are positions in it, and \<^verbatim>\<open>cur_idx\<close> is a counter that
  starts at 0 and is only incremented: all three are natural numbers.
  \<open>read_buffer bufs base i\<close> is \<^verbatim>\<open>base[i]\<close>; outside the array it is undefined
  behaviour.
\<close>

definition read_buffer :: "ptr list \<Rightarrow> nat \<Rightarrow> nat \<Rightarrow> error + ptr" where
  "read_buffer bufs base i =
     (if base + i < length bufs then Inr (bufs ! (base + i))
      else Inl UndefinedBehaviour)"

text \<open>
  One copy with \<^verbatim>\<open>cur_idx++\<close>: the state is the running index and the stream.
\<close>

definition copyToSim_next ::
  "cudaStream_t \<Rightarrow> ptr list \<Rightarrow> nat \<Rightarrow> Tensor \<Rightarrow> nat \<times> stream_op list
     \<Rightarrow> error + nat \<times> stream_op list" where
  "copyToSim_next strm bufs base t st =
     bindE (read_buffer bufs base (fst st)) (\<lambda>p.
       Inr (fst st + 1, copyToSim strm t p (snd st)))"

definition copyFromSim_next ::
  "cudaStream_t \<Rightarrow> ptr list \<Rightarrow> nat \<Rightarrow> Tensor \<Rightarrow> nat \<times> stream_op list
     \<Rightarrow> error + nat \<times> stream_op list" where
  "copyFromSim_next strm bufs base t st =
     bindE (read_buffer bufs base (fst st)) (\<lambda>p.
       Inr (fst st + 1, copyFromSim strm p t (snd st)))"

text \<open>The two range-for loops over named tensors.\<close>

fun copy_named_out ::
  "cudaStream_t \<Rightarrow> ptr list \<Rightarrow> nat \<Rightarrow> NamedTensor list \<Rightarrow> nat \<times> stream_op list
     \<Rightarrow> error + nat \<times> stream_op list" where
  "copy_named_out strm bufs base [] st = Inr st"
| "copy_named_out strm bufs base (t # ts) st =
     (case copyFromSim_next strm bufs base (hdl t) st of
        Inl e \<Rightarrow> Inl e
      | Inr st' \<Rightarrow> copy_named_out strm bufs base ts st')"

text \<open>
  \<^verbatim>\<open>Manager::CUDAImpl::gpuRollout\<close>, on the operations already enqueued on the stream.
\<close>

definition gpuRollout ::
  "cudaStream_t \<Rightarrow> ptr list \<Rightarrow> TrainInterface \<Rightarrow> stream_op list \<Rightarrow> error + stream_op list" where
  "gpuRollout strm buffers train_iface q =
     (let src_obs = observations train_iface;
          src_stats = stats train_iface;
          policy_assignments = policyAssignments train_iface;
          input_buffers = (0 :: nat);
          output_buffers0 = length src_obs + length src_stats + 4;
          output_buffers =
            (if policy_assignments \<noteq> None then output_buffers0 + 1 else output_buffers0);
          cur_idx = (0 :: nat)
      in
      bindE (copyToSim_next strm buffers input_buffers (actions train_iface) (cur_idx, q)) (\<lambda>s1.
      bindE (copyToSim_next strm buffers input_buffers (resets train_iface) s1) (\<lambda>s2.
      (let s3 = (fst s2, snd s2 @ [runAsync strm]) in
      bindE (copyFromSim_next strm buffers output_buffers (rewards train_iface) s3) (\<lambda>s4.
      bindE (copyFromSim_next strm buffers output_buffers (dones train_iface) s4) (\<lambda>s5.
      bindE (case policy_assignments of
               None \<Rightarrow> Inr s5
             | Some pa \<Rightarrow> copyFromSim_next strm buffers output_buffers pa s5) (\<lambda>s6.
      bindE (copy_named_out strm buffers output_buffers src_obs s6) (\<lambda>s7.
      bindE (copy_named_out strm buffers output_buffers src_stats s7) (\<lambda>s8.
        Inr (snd s8))))))))))"

text \<open>
  \<^verbatim>\<open>Manager::gpuRolloutStep\<close> (compiled under \<^verbatim>\<open>MADRONA_CUDA_SUPPORT\<close> only): the
  CPU implementation's \<^verbatim>\<open>gpuRollout\<close> is \<^verbatim>\<open>assert(false)\<close>.
\<close>

definition gpuRolloutStep ::
  "'w Env \<Rightarrow> 'w Impl \<Rightarrow> cudaStream_t \<Rightarrow> ptr list \<Rightarrow> stream_op list \<Rightarrow> error + stream_op list" where
  "gpuRolloutStep env m strm rollout_buffers q =
     (let iface = trainInterface env m in
      case implKind m of
        CPUImpl \<Rightarrow> Inl AssertFailed
      | CUDAImpl \<Rightarrow> gpuRollout strm rollout_buffers iface q)"

text \<open>
  A Manager exists with the CUDA mode only where CUDA support is compiled in (\<^verbatim>\<open>init\<close>
  does not return otherwise); then each of the four operations above stores, whichever
  branch it takes.
\<close>

definition writes_enabled :: "'w Env \<Rightarrow> 'w Impl \<Rightarrow> bool" where
  "writes_enabled env m \<longleftrightarrow> (execMode (cfg m) = ExecMode_CUDA \<longrightarrow> MADRONA_CUDA_SUPPORT env)"

subsection \<open>Sequences of calls on a Manager\<close>

text \<open>
  The member functions of the Manager that change what it holds, as values, so that a
  statement can speak of every sequence of calls in a Manager's life. The tensor accessors
  and \<^verbatim>\<open>trainInterface\<close> are \<^verbatim>\<open>const\<close>; \<^verbatim>\<open>gpuRolloutStep\<close> only
  enqueues work on the caller's stream.
\<close>

datatype api_call =
    Call_step
  | Call_triggerReset int32_t
  | Call_setAction int32_t int32_t int32_t int32_t int32_t int32_t
  | Call_setSaveCheckpoint int32_t int32_t
  | Call_triggerLoadCheckpoint int32_t

fun do_call :: "'w Env \<Rightarrow> 'w Impl \<Rightarrow> api_call \<Rightarrow> error + 'w Impl" where
  "do_call env m Call_step = Inr (step env m)"
| "do_call env m (Call_triggerReset w) = triggerReset env m w"
| "do_call env m (Call_setAction w a move_amount move_angle r i) =
     setAction env m w a move_amount move_angle r i"
| "do_call env m (Call_setSaveCheckpoint w v) = setSaveCheckpoint env m w v"
| "do_call env m (Call_triggerLoadCheckpoint w) = triggerLoadCheckpoint env m w"

fun do_calls :: "'w Env \<Rightarrow> 'w Impl \<Rightarrow> api_call list \<Rightarrow> error + 'w Impl" where
  "do_calls env m [] = Inr m"
| "do_calls env m (c # cs) =
     (case do_call env m c of
        Inl e \<Rightarrow> Inl e
      | Inr m' \<Rightarrow> do_calls env m' cs)"

text \<open>
  The simulation-side tensors of the copies of one rollout, in the order of the spec's
  list (section 4.4): actions, resets, then rewards, dones, the policy assignment if there
  is one, the observations, the statistics.
\<close>

definition rollout_inputs_spec :: "TrainInterface \<Rightarrow> Tensor list" where
  "rollout_inputs_spec iface = [actions iface, resets iface]"

definition rollout_outputs_spec :: "TrainInterface \<Rightarrow> Tensor list" where
  "rollout_outputs_spec iface =
     [rewards iface, dones iface]
     @ (case policyAssignments iface of None \<Rightarrow> [] | Some pa \<Rightarrow> [pa])
     @ map hdl (observations iface)
     @ map hdl (stats iface)"

definition output_buffers_offset :: "TrainInterface \<Rightarrow> nat" where
  "output_buffers_offset iface =
     length (observations iface) + length (stats iface) + 4
     + (case policyAssignments iface of None \<Rightarrow> 0 | Some pa \<Rightarrow> 1)"

text \<open>
  The rollout as the spec lists it, in one piece: the two copies in from elements 0 and 1 of
  the caller's array, the launch, and one copy out per output tensor to consecutive
  elements of the array from \<open>first_out\<close> on.
\<close>

definition copy_in_op :: "cudaStream_t \<Rightarrow> ptr list \<Rightarrow> nat \<Rightarrow> Tensor \<Rightarrow> stream_op" where
  "copy_in_op strm bufs k t =
     cudaMemcpyAsync (devicePtr t) (bufs ! k) (numTensorBytes t) cudaMemcpyDeviceToDevice strm"

definition copy_out_op :: "cudaStream_t \<Rightarrow> ptr list \<Rightarrow> nat \<Rightarrow> Tensor \<Rightarrow> stream_op" where
  "copy_out_op strm bufs k t =
     cudaMemcpyAsync (bufs ! k) (devicePtr t) (numTensorBytes t) cudaMemcpyDeviceToDevice strm"

definition rollout_ops_spec ::
  "cudaStream_t \<Rightarrow> ptr list \<Rightarrow> nat \<Rightarrow> TrainInterface \<Rightarrow> stream_op list" where
  "rollout_ops_spec strm bufs first_out iface =
     [copy_in_op strm bufs 0 (actions iface),
      copy_in_op strm bufs 1 (resets iface),
      runAsync strm]
     @ map (\<lambda>(k, t). copy_out_op strm bufs k t)
         (enumerate first_out (rollout_outputs_spec iface))"

definition is_copy :: "stream_op \<Rightarrow> bool" where
  "is_copy op = (case op of cudaMemcpyAsync d s n k strm \<Rightarrow> True | runAsync strm \<Rightarrow> False)"

subsection \<open>A concrete environment\<close>

text \<open>
  A small instance of everything taken from outside, on which the statements below are
  exercised: three worlds of two agents on the CPU backend, an importer that returns one
  object of one mesh per path, a processing that returns one metadata per object, and a
  step that clears the reset flags and counts the passes.
\<close>

definition example_metadata :: "nat \<Rightarrow> RigidBodyMetadata" where
  "example_metadata k =
     \<lparr>mass = \<lparr>invInertiaTensor = \<lparr>vec_x = f32_1, vec_y = f32_0_5, vec_z = f32_0_75\<rparr>,
              massOther = k\<rparr>,
      metadataOther = k\<rparr>"

definition example_assets :: RigidBodyAssets where
  "example_assets =
     \<lparr>metadatas = [example_metadata 0, example_metadata 1, example_metadata 2,
                   example_metadata 3, example_metadata 4, example_metadata 5,
                   example_metadata 6],
      assetsOther = 0\<rparr>"

definition example_env :: "nat Env" where
  "example_env =
     \<lparr>MADRONA_CUDA_SUPPORT = False,
      data_path = (\<lambda>f. ''data/'' @ f),
      numAgents = 2,
      maxObservationsPerAgent = 9,
      numLidarSamples = 30,
      sizeof_Checkpoint = 1000,
      sizeof_SelfObservation = 32,
      importFromDisk = (\<lambda>paths one. Inr \<lparr>objects = map (\<lambda>p. [SourceMesh (length p)]) paths\<rparr>),
      processRigidBodyAssets = (\<lambda>hulls objs build. Some example_assets),
      newExecutor = (\<lambda>mode sim_cfg inits n k.
        \<lparr>exp_Reset = replicate (unat n) 7,
         exp_CheckpointSave = replicate (unat n) 0,
         exp_CheckpointReset = replicate (unat n) 0,
         exp_Action = replicate (unat n * 2)
           \<lparr>moveAmount = 0, moveAngle = 0, rotate = 0, interact = 0\<rparr>,
         exp_sim = 0\<rparr>),
      executor_run = (\<lambda>ex. ex\<lparr>exp_Reset := map (\<lambda>r. 0) (exp_Reset ex),
                                 exp_sim := Suc (exp_sim ex)\<rparr>),
      getExported = (\<lambda>sim slot. 4096 * ucast slot)\<rparr>"

definition example_cfg :: Config where
  "example_cfg =
     \<lparr>execMode = ExecMode_CPU, gpuID = 0, numWorlds = 3, autoReset = False,
      simFlags = 0, rewardMode = 0, buttonWidth = f32_1, doorWidth = f32_1\<rparr>"

definition example_tensor :: "ptr \<Rightarrow> ElementType \<Rightarrow> int64_t list \<Rightarrow> Tensor" where
  "example_tensor p ty ds = \<lparr>devicePtr = p, elemType = ty, dims = ds, tensorGpuID = Some 0\<rparr>"

definition example_iface :: TrainInterface where
  "example_iface =
     \<lparr>observations = [\<lparr>name = ''self'', hdl = example_tensor 500 ElementType_Float32 [6, 8]\<rparr>],
      actions = example_tensor 100 ElementType_Int32 [6, 4],
      rewards = example_tensor 200 ElementType_Float32 [6, 1],
      dones = example_tensor 300 ElementType_Int32 [6, 1],
      resets = example_tensor 400 ElementType_Int32 [3, 1],
      policyAssignments = Some (example_tensor 600 ElementType_Int32 [6, 1]),
      stats = [\<lparr>name = ''blob'', hdl = example_tensor 700 ElementType_UInt8 [3, 10]\<rparr>]\<rparr>"

definition example_buffers :: "ptr list" where
  "example_buffers =
     [1000, 1001, 1002, 1003, 1004, 1005, 1006, 1007, 1008, 1009, 1010, 1011, 1012, 1013]"

text \<open>
  What \<^verbatim>\<open>init\<close> returns in this environment, and the Manager its constructor leaves:
  the reset loop has set the three flags, the step has cleared them and counted one pass.
\<close>

definition example_impl :: "nat Impl" where
  "example_impl =
     \<lparr>implKind = CPUImpl, cfg = example_cfg,
      physicsLoader =
        \<lparr>loaderMode = ExecMode_CPU, maxObjects = 10,
         loadedRigidBodies =
           [example_assets\<lparr>metadatas := (metadatas example_assets)
              [3 := \<lparr>mass = \<lparr>invInertiaTensor =
                                 \<lparr>vec_x = f32_0, vec_y = f32_0, vec_z = f32_0_75\<rparr>,
                               massOther = 3\<rparr>,
                       metadataOther = 3\<rparr>]\<rparr>]\<rparr>,
      worldResetBuffer = [7, 7, 7],
      worldSaveCheckpointBuffer = [0, 0, 0],
      worldLoadCheckpointBuffer = [0, 0, 0],
      agentActionsBuffer =
        replicate 6 \<lparr>moveAmount = 0, moveAngle = 0, rotate = 0, interact = 0\<rparr>,
      executor = 0\<rparr>"

definition example_mgr :: "nat Impl" where
  "example_mgr = example_impl\<lparr>worldResetBuffer := [0, 0, 0], executor := 1\<rparr>"

section \<open>Proofs\<close>

subsection \<open>Stores and the reset loop\<close>

declare reset_loop.simps [simp del]

lemma bindE_Inl [simp]: "bindE (Inl e) f = Inl e"
  by (simp add: bindE_def)

lemma bindE_Inr [simp]: "bindE (Inr v) f = f v"
  by (simp add: bindE_def)

lemma bindE_eq_Inr: "bindE r f = Inr y \<longleftrightarrow> (\<exists>v. r = Inr v \<and> f v = Inr y)"
  by (cases r) simp_all

lemma write_at_eq_Inr:
  "write_at buf i v = Inr b \<longleftrightarrow> 0 \<le> i \<and> i < int (length buf) \<and> b = buf[nat i := v]"
  by (auto simp: write_at_def)

lemma write_at_in_range:
  "0 \<le> i \<Longrightarrow> i < int (length buf) \<Longrightarrow> write_at buf i v = Inr (buf[nat i := v])"
  by (simp add: write_at_def)

lemma triggerReset_enabled:
  "writes_enabled env m \<Longrightarrow>
   triggerReset env m w =
     bindE (write_at (worldResetBuffer m) (sint w) 1) (\<lambda>buf. Inr (m\<lparr>worldResetBuffer := buf\<rparr>))"
  by (auto simp: triggerReset_def writes_enabled_def)

lemma sint_of_nat_32: "k < 2 ^ 31 \<Longrightarrow> sint (of_nat k :: 32 word) = int k"
  by (simp add: signed_of_nat signed_take_bit_int_eq_self)

lemma sless_of_nat_32:
  "k < 2 ^ 31 \<Longrightarrow> n < 2 ^ 31 \<Longrightarrow> (of_nat k :: 32 word) <s of_nat n \<longleftrightarrow> k < n"
  by (simp add: word_sless_alt sint_of_nat_32)

lemma reset_loop_as_calls:
  "k \<le> n \<Longrightarrow> n < 2 ^ 31 \<Longrightarrow>
   reset_loop env (of_nat k) (of_nat n) m =
     do_calls env m (map (\<lambda>i. Call_triggerReset (of_nat i)) [k..<n])"
proof (induction "n - k" arbitrary: k m)
  case 0
  then have "k = n" by simp
  then show ?case
    by (simp add: reset_loop.simps [of env "of_nat n" "of_nat n" m])
next
  case (Suc d)
  then have lt: "k < n" and kb: "k < 2 ^ 31" by simp_all
  have step: "of_nat k + 1 = (of_nat (Suc k) :: 32 word)" by simp
  have upt: "[k..<n] = k # [Suc k..<n]"
    using lt by (simp add: upt_conv_Cons)
  have ih: "reset_loop env (of_nat (Suc k)) (of_nat n) m' =
      do_calls env m' (map (\<lambda>i. Call_triggerReset (of_nat i)) [Suc k..<n])" for m'
    using Suc.hyps Suc.prems lt by (intro Suc.hyps(1)) simp_all
  show ?case
    using lt kb Suc.prems(2)
    by (simp add: reset_loop.simps [of env "of_nat k" "of_nat n" m] sless_of_nat_32
        upt step ih del: of_nat_Suc split: sum.splits)
qed

lemma resets_written:
  assumes "writes_enabled env m" and "n \<le> length (worldResetBuffer m)" and "n < 2 ^ 31"
    and "k \<le> n"
  shows "do_calls env m (map (\<lambda>i. Call_triggerReset (of_nat i)) [k..<n]) =
     Inr (m\<lparr>worldResetBuffer :=
              take k (worldResetBuffer m) @ replicate (n - k) 1 @ drop n (worldResetBuffer m)\<rparr>)"
  using assms
proof (induction "n - k" arbitrary: k m)
  case 0
  then show ?case by simp
next
  case (Suc d)
  then have lt: "k < n" by simp
  let ?buf = "worldResetBuffer m"
  let ?m' = "m\<lparr>worldResetBuffer := ?buf[k := 1]\<rparr>"
  have upt: "[k..<n] = k # [Suc k..<n]"
    using lt by (simp add: upt_conv_Cons)
  have kb: "k < 2 ^ 31" using lt Suc.prems by simp
  have one: "triggerReset env m (of_nat k) = Inr ?m'"
    using Suc.prems lt kb
    by (simp add: triggerReset_enabled sint_of_nat_32 write_at_in_range)
  have en: "writes_enabled env ?m'"
    using Suc.prems by (simp add: writes_enabled_def)
  have ih: "do_calls env ?m' (map (\<lambda>i. Call_triggerReset (of_nat i)) [Suc k..<n]) =
     Inr (?m'\<lparr>worldResetBuffer :=
              take (Suc k) (worldResetBuffer ?m') @ replicate (n - Suc k) 1
              @ drop n (worldResetBuffer ?m')\<rparr>)"
    using Suc.hyps Suc.prems lt en by (intro Suc.hyps(1)) simp_all
  have klen: "k < length ?buf" using lt Suc.prems by simp
  have bufs: "take (Suc k) (?buf[k := 1]) @ replicate (n - Suc k) 1 @ drop n (?buf[k := 1])
      = take k ?buf @ replicate (n - k) 1 @ drop n ?buf"
  proof -
    have "take (Suc k) (?buf[k := 1]) = take k ?buf @ [1]"
      using klen by (simp add: take_Suc_conv_app_nth)
    moreover have "drop n (?buf[k := 1]) = drop n ?buf"
      using lt by simp
    moreover have "replicate (n - k) (1 :: 32 word) = 1 # replicate (n - Suc k) 1"
      using lt by (simp add: Suc_diff_Suc flip: replicate_Suc)
    ultimately show ?thesis by simp
  qed
  show ?case
    by (simp add: upt one ih bufs)
qed

subsection \<open>The constructor (claim C1)\<close>

lemma do_calls_append:
  "do_calls env m (cs @ ds) = bindE (do_calls env m cs) (\<lambda>m'. do_calls env m' ds)"
  by (induction cs arbitrary: m) (simp_all split: sum.splits)

lemma init_eq_Some:
  assumes "init env c v = Inr (Some m)"
  shows "cfg m = c" and "writes_enabled env m" and "execMode c \<noteq> ExecMode_Other"
    and "implKind m = CUDAImpl \<longleftrightarrow> execMode c = ExecMode_CUDA"
proof -
  have "cfg m = c \<and> writes_enabled env m \<and> execMode c \<noteq> ExecMode_Other
      \<and> (implKind m = CUDAImpl \<longleftrightarrow> execMode c = ExecMode_CUDA)"
  proof (cases "execMode c")
    case ExecMode_CPU
    with assms obtain pl where "m = new_Impl CPUImpl c pl
        (newExecutor env ExecMode_CPU (make_sim_cfg c v) (make_world_inits c pl v)
           (numWorlds c) (ExportID_u32 ExportID_NumExports))"
      by (auto simp: init_def Let_def bindE_eq_Inr)
    with ExecMode_CPU show ?thesis
      by (simp add: new_Impl_def writes_enabled_def)
  next
    case ExecMode_CUDA
    with assms have sup: "MADRONA_CUDA_SUPPORT env"
      by (simp add: init_def Let_def split: if_splits)
    with ExecMode_CUDA assms obtain pl where "m = new_Impl CUDAImpl c pl
        (newExecutor env ExecMode_CUDA (make_sim_cfg c v) (make_world_inits c pl v)
           (numWorlds c) (ExportID_u32 ExportID_NumExports))"
      by (auto simp: init_def Let_def bindE_eq_Inr)
    with ExecMode_CUDA sup show ?thesis
      by (simp add: new_Impl_def writes_enabled_def)
  next
    case ExecMode_Other
    with assms show ?thesis
      by (simp add: init_def Let_def)
  qed
  then show "cfg m = c" and "writes_enabled env m" and "execMode c \<noteq> ExecMode_Other"
    and "implKind m = CUDAImpl \<longleftrightarrow> execMode c = ExecMode_CUDA"
    by simp_all
qed

lemma Manager_after_init:
  assumes "init env cfg0 viz_bridge = Inr (Some m0)"
    and "unat (numWorlds cfg0) < 2 ^ 31"
    and "length (worldResetBuffer m0) = unat (numWorlds cfg0)"
  shows "Manager env cfg0 viz_bridge
         = Inr (step env (m0\<lparr>worldResetBuffer := replicate (unat (numWorlds cfg0)) 1\<rparr>))"
proof -
  let ?n = "unat (numWorlds cfg0)"
  let ?calls = "map (\<lambda>i. Call_triggerReset (of_nat i)) [0..<?n]"
  have en: "writes_enabled env m0"
    using assms(1) by (rule init_eq_Some)
  have calls: "do_calls env m0 ?calls = Inr (m0\<lparr>worldResetBuffer := replicate ?n 1\<rparr>)"
    using resets_written [OF en, of ?n 0] assms(2,3) by simp
  have loop: "reset_loop env 0 (numWorlds cfg0) m0 = do_calls env m0 ?calls"
    using reset_loop_as_calls [of 0 ?n env m0] assms(2) by simp
  show ?thesis
    by (simp add: Manager_def assms(1) loop calls)
qed

text \<open>
  Claim C1. Where \<^verbatim>\<open>init\<close> has returned the backend \<open>m0\<close> for a configuration of
  \<open>N\<close> worlds (\<open>N\<close> below \<open>2 ^ 31\<close>, the range of the signed loop counter and of
  a world index; the reset array holding one flag per world), the constructor is exactly
  the calls \<^verbatim>\<open>triggerReset(0)\<close>, ..., \<^verbatim>\<open>triggerReset(N - 1)\<close> followed by one
  \<^verbatim>\<open>step()\<close>: it returns the result of that one step taken from the state in which
  every world's reset flag is 1.
\<close>

theorem Manager_resets_every_world_then_steps_once:
  assumes "init env cfg0 viz_bridge = Inr (Some m0)"
    and "unat (numWorlds cfg0) < 2 ^ 31"
    and "length (worldResetBuffer m0) = unat (numWorlds cfg0)"
  shows "do_calls env m0
           (map (\<lambda>i. Call_triggerReset (of_nat i)) [0..<unat (numWorlds cfg0)])
         = Inr (m0\<lparr>worldResetBuffer := replicate (unat (numWorlds cfg0)) 1\<rparr>)
       \<and> Manager env cfg0 viz_bridge
         = do_calls env m0
             (map (\<lambda>i. Call_triggerReset (of_nat i)) [0..<unat (numWorlds cfg0)] @ [Call_step])
       \<and> Manager env cfg0 viz_bridge
         = Inr (step env (m0\<lparr>worldResetBuffer := replicate (unat (numWorlds cfg0)) 1\<rparr>))"
proof -
  let ?n = "unat (numWorlds cfg0)"
  let ?calls = "map (\<lambda>i. Call_triggerReset (of_nat i)) [0..<?n]"
  have n: "?n < 2 ^ 31"
    by (rule assms(2))
  have en: "writes_enabled env m0"
    using assms(1) by (rule init_eq_Some)
  have calls: "do_calls env m0 ?calls = Inr (m0\<lparr>worldResetBuffer := replicate ?n 1\<rparr>)"
    using resets_written [OF en, of ?n 0] n assms(3) by simp
  have loop: "reset_loop env 0 (numWorlds cfg0) m0 = do_calls env m0 ?calls"
    using reset_loop_as_calls [of 0 ?n env m0] n by simp
  have ctor: "Manager env cfg0 viz_bridge =
      Inr (step env (m0\<lparr>worldResetBuffer := replicate ?n 1\<rparr>))"
    by (simp add: Manager_def assms(1) loop calls)
  show ?thesis
    by (simp add: calls ctor do_calls_append)
qed

lemma replicate_3: "replicate 3 v = [v, v, v]"
  by (simp add: numeral_3_eq_3)

lemma setupHulls_example:
  "\<exists>st. setupHulls \<lparr>objects = map (\<lambda>p. [SourceMesh (length p)]) (asset_paths example_env)\<rparr> = Inr st"
  by (simp add: setupHulls_def setupHull_def asset_paths_def Let_def)

lemma loadPhysicsObjects_example:
  "loadPhysicsObjects example_env (newPhysicsLoader ExecMode_CPU 10) = Inr (physicsLoader example_impl)"
proof -
  obtain st where st: "setupHulls \<lparr>objects = map (\<lambda>p. [SourceMesh (length p)]) (asset_paths example_env)\<rparr> = Inr st"
    using setupHulls_example by blast
  have imp: "importFromDisk example_env (asset_paths example_env) True =
      Inr \<lparr>objects = map (\<lambda>p. [SourceMesh (length p)]) (asset_paths example_env)\<rparr>"
    by (simp add: example_env_def)
  have pr: "processRigidBodyAssets example_env (src_convex_hulls st) (src_objs st) False = Some example_assets"
    by (simp add: example_env_def)
  have ca: "constrain_agent example_assets = Inr (hd (loadedRigidBodies (physicsLoader example_impl)))"
    by (simp add: constrain_agent_def example_assets_def example_metadata_def example_impl_def
        set_invInertia_x_def set_invInertia_y_def Let_def)
  show ?thesis
    by (simp add: loadPhysicsObjects_def imp st pr ca loadRigidBodies_def newPhysicsLoader_def
        example_impl_def)
qed

lemma init_example: "init example_env example_cfg 0 = Inr (Some example_impl)"
proof -
  have mode: "execMode example_cfg = ExecMode_CPU"
    by (simp add: example_cfg_def)
  have "new_Impl CPUImpl example_cfg (physicsLoader example_impl)
          (newExecutor example_env ExecMode_CPU (make_sim_cfg example_cfg 0)
             (make_world_inits example_cfg (physicsLoader example_impl) 0)
             (numWorlds example_cfg) (ExportID_u32 ExportID_NumExports)) = example_impl"
    by (simp add: new_Impl_def example_env_def example_cfg_def example_impl_def replicate_3)
  then show ?thesis
    by (simp add: init_def mode loadPhysicsObjects_example Let_def)
qed

lemma step_example:
  "step example_env (example_impl\<lparr>worldResetBuffer := [1, 1, 1]\<rparr>) = example_mgr"
  by (simp add: step_def run_def example_env_def example_impl_def example_mgr_def Let_def)

lemma Manager_example: "Manager example_env example_cfg 0 = Inr example_mgr"
proof -
  have n: "unat (numWorlds example_cfg) = 3"
    by (simp add: example_cfg_def)
  have len: "length (worldResetBuffer example_impl) = unat (numWorlds example_cfg)"
    by (simp add: n example_impl_def)
  have lt: "unat (numWorlds example_cfg) < 2 ^ 31"
    by (simp add: n)
  show ?thesis
    using Manager_after_init [OF init_example lt len]
    by (simp add: n replicate_3 step_example)
qed

text \<open>
  The claim on the concrete environment: three worlds, three resets in order, one step.
\<close>

theorem Manager_resets_every_world_then_steps_once_witness:
  "init example_env example_cfg 0 = Inr (Some example_impl)
   \<and> unat (numWorlds example_cfg) = 3
   \<and> length (worldResetBuffer example_impl) = 3
   \<and> do_calls example_env example_impl
        [Call_triggerReset 0, Call_triggerReset 1, Call_triggerReset 2]
      = Inr (example_impl\<lparr>worldResetBuffer := [1, 1, 1]\<rparr>)
   \<and> Manager example_env example_cfg 0
      = do_calls example_env example_impl
          [Call_triggerReset 0, Call_triggerReset 1, Call_triggerReset 2, Call_step]
   \<and> Manager example_env example_cfg 0 = Inr example_mgr"
proof -
  have n: "unat (numWorlds example_cfg) = 3"
    by (simp add: example_cfg_def)
  have len: "length (worldResetBuffer example_impl) = unat (numWorlds example_cfg)"
    by (simp add: n example_impl_def)
  have lt: "unat (numWorlds example_cfg) < 2 ^ 31"
    by (simp add: n)
  have upt: "[0..<3] = [0, 1, 2]"
    by (simp add: upt_conv_Cons)
  have len3: "length (worldResetBuffer example_impl) = 3"
    using len by (simp add: n)
  note t = Manager_resets_every_world_then_steps_once [OF init_example lt len]
  have t1: "do_calls example_env example_impl
        [Call_triggerReset 0, Call_triggerReset 1, Call_triggerReset 2]
      = Inr (example_impl\<lparr>worldResetBuffer := [1, 1, 1]\<rparr>)"
    using t by (simp add: n upt replicate_3 del: do_calls.simps)
  have t2: "Manager example_env example_cfg 0
      = do_calls example_env example_impl
          [Call_triggerReset 0, Call_triggerReset 1, Call_triggerReset 2, Call_step]"
    using t by (simp add: n upt del: do_calls.simps)
  from t have "Manager example_env example_cfg 0
      = Inr (step example_env
          (example_impl\<lparr>worldResetBuffer := replicate (unat (numWorlds example_cfg)) 1\<rparr>))"
    by blast
  then have t3: "Manager example_env example_cfg 0 = Inr example_mgr"
    by (simp add: n replicate_3 step_example)
  from init_example n len3 t1 t2 t3 show ?thesis
    by blast
qed

subsection \<open>The control operations over a Manager's life (claim C5)\<close>

lemma i32_mul_in_range:
  assumes "- (2 ^ 31) \<le> sint a * sint b" and "sint a * sint b < 2 ^ 31"
  shows "i32_mul a b = Inr (a * b)" and "sint (a * b) = sint a * sint b"
  using assms by (simp_all add: i32_mul_def sint_word_ariths signed_take_bit_int_eq_self)

lemma i32_add_in_range:
  assumes "- (2 ^ 31) \<le> sint a + sint b" and "sint a + sint b < 2 ^ 31"
  shows "i32_add a b = Inr (a + b)" and "sint (a + b) = sint a + sint b"
  using assms by (simp_all add: i32_add_def sint_word_ariths signed_take_bit_int_eq_self)

lemma setSaveCheckpoint_enabled:
  "writes_enabled env m \<Longrightarrow>
   setSaveCheckpoint env m w v =
     bindE (write_at (worldSaveCheckpointBuffer m) (sint w) v)
       (\<lambda>buf. Inr (m\<lparr>worldSaveCheckpointBuffer := buf\<rparr>))"
  by (auto simp: setSaveCheckpoint_def writes_enabled_def)

lemma triggerLoadCheckpoint_enabled:
  "writes_enabled env m \<Longrightarrow>
   triggerLoadCheckpoint env m w =
     bindE (write_at (worldLoadCheckpointBuffer m) (sint w) 1)
       (\<lambda>buf. Inr (m\<lparr>worldLoadCheckpointBuffer := buf\<rparr>))"
  by (auto simp: triggerLoadCheckpoint_def writes_enabled_def)

lemma setAction_enabled:
  "writes_enabled env m \<Longrightarrow>
   setAction env m w a ma mg r i =
     bindE (i32_mul w (numAgents env)) (\<lambda>row.
     bindE (i32_add row a) (\<lambda>flat.
     bindE (write_at (agentActionsBuffer m) (sint flat)
              \<lparr>moveAmount = ma, moveAngle = mg, rotate = r, interact = i\<rparr>)
       (\<lambda>buf. Inr (m\<lparr>agentActionsBuffer := buf\<rparr>))))"
  by (cases "execMode (cfg m) = ExecMode_CUDA")
    (simp_all add: setAction_def writes_enabled_def Let_def)

lemma triggerReset_cfg: "triggerReset env m w = Inr m' \<Longrightarrow> cfg m' = cfg m"
  by (auto simp: triggerReset_def bindE_eq_Inr split: if_splits)

lemma setAction_cfg: "setAction env m w a ma mg r i = Inr m' \<Longrightarrow> cfg m' = cfg m"
  by (auto simp: setAction_def Let_def bindE_eq_Inr split: if_splits)

lemma setSaveCheckpoint_cfg: "setSaveCheckpoint env m w v = Inr m' \<Longrightarrow> cfg m' = cfg m"
  by (auto simp: setSaveCheckpoint_def bindE_eq_Inr split: if_splits)

lemma triggerLoadCheckpoint_cfg: "triggerLoadCheckpoint env m w = Inr m' \<Longrightarrow> cfg m' = cfg m"
  by (auto simp: triggerLoadCheckpoint_def bindE_eq_Inr split: if_splits)

lemma step_cfg: "cfg (step env m) = cfg m"
  by (simp add: step_def run_def Let_def)

lemma do_call_cfg: "do_call env m c = Inr m' \<Longrightarrow> cfg m' = cfg m"
  by (cases c)
    (simp_all add: step_cfg triggerReset_cfg setAction_cfg setSaveCheckpoint_cfg
      triggerLoadCheckpoint_cfg, auto simp: step_cfg)

lemma do_calls_cfg: "do_calls env m cs = Inr m' \<Longrightarrow> cfg m' = cfg m"
proof (induction cs arbitrary: m)
  case Nil
  then show ?case by simp
next
  case (Cons c cs)
  then obtain m1 where c: "do_call env m c = Inr m1" and cs: "do_calls env m1 cs = Inr m'"
    by (auto split: sum.splits)
  from Cons.IH [OF cs] do_call_cfg [OF c] show ?case by simp
qed

lemma writes_enabled_cfg: "cfg m' = cfg m \<Longrightarrow> writes_enabled env m' = writes_enabled env m"
  by (simp add: writes_enabled_def)

lemma Manager_eq_Inr:
  assumes "Manager env c v = Inr m"
  shows "cfg m = c" and "writes_enabled env m"
proof -
  from assms obtain m0 m1 where i: "init env c v = Inr (Some m0)"
    and l: "reset_loop env 0 (numWorlds c) m0 = Inr m1" and s: "m = step env m1"
    by (auto simp: Manager_def bindE_eq_Inr split: option.splits)
  have loop: "reset_loop env i n x = Inr y \<Longrightarrow> cfg y = cfg x" for i n x y
  proof (induction env i n x rule: reset_loop.induct)
    case (1 env i n m)
    show ?case
    proof (cases "i <s n")
      case True
      with "1.prems" obtain m' where t: "triggerReset env m i = Inr m'"
        and r: "reset_loop env (i + 1) n m' = Inr y"
        by (auto simp: reset_loop.simps [of env i n m] split: sum.splits)
      from "1.IH" [OF True t r] triggerReset_cfg [OF t] show ?thesis by simp
    next
      case False
      with "1.prems" show ?thesis
        by (simp add: reset_loop.simps [of env i n m])
    qed
  qed
  from init_eq_Some(1) [OF i] loop [OF l] s show c: "cfg m = c"
    by (simp add: step_cfg)
  from init_eq_Some(2) [OF i] init_eq_Some(1) [OF i] c show "writes_enabled env m"
    by (simp add: writes_enabled_def)
qed

lemma lifetime:
  assumes "Manager env c v = Inr m0" and "do_calls env m0 cs = Inr m"
  shows "cfg m = c" and "writes_enabled env m"
proof -
  from do_calls_cfg [OF assms(2)] Manager_eq_Inr(1) [OF assms(1)] show c: "cfg m = c" by simp
  from Manager_eq_Inr [OF assms(1)] c show "writes_enabled env m"
    by (simp add: writes_enabled_def)
qed

text \<open>
  Claim C5. On a Manager at any point of its life, with the action array holding
  \<open>numWorlds * numAgents\<close> records (a count below \<open>2 ^ 31\<close>, so that every flat index
  is an \<^verbatim>\<open>int32_t\<close>), \<^verbatim>\<open>setAction(w, a, ...)\<close> for a world index and an agent index
  in range returns, and what it leaves differs from what it found in one place only: the
  action record at the flat index \<open>w * numAgents + a\<close> is the record of the four arguments.
  Every other action slot, the reset array and the two checkpoint arrays are unchanged.
\<close>

theorem setAction_writes_exactly_one_slot:
  assumes "Manager env cfg0 viz_bridge = Inr m0"
    and "do_calls env m0 cs = Inr m"
    and "length (agentActionsBuffer m) = unat (numWorlds cfg0) * nat (sint (numAgents env))"
    and "length (agentActionsBuffer m) < 2 ^ 31"
    and "0 \<le> sint w" and "sint w < uint (numWorlds cfg0)"
    and "0 \<le> sint a" and "sint a < sint (numAgents env)"
  shows "\<exists>m'. setAction env m w a move_amount move_angle r i = Inr m'
      \<and> nat (sint w * sint (numAgents env) + sint a) < length (agentActionsBuffer m)
      \<and> agentActionsBuffer m' ! nat (sint w * sint (numAgents env) + sint a)
          = \<lparr>moveAmount = move_amount, moveAngle = move_angle, rotate = r, interact = i\<rparr>
      \<and> length (agentActionsBuffer m') = length (agentActionsBuffer m)
      \<and> (\<forall>j. j \<noteq> nat (sint w * sint (numAgents env) + sint a)
            \<longrightarrow> agentActionsBuffer m' ! j = agentActionsBuffer m ! j)
      \<and> worldResetBuffer m' = worldResetBuffer m
      \<and> worldSaveCheckpointBuffer m' = worldSaveCheckpointBuffer m
      \<and> worldLoadCheckpointBuffer m' = worldLoadCheckpointBuffer m
      \<and> m' = m\<lparr>agentActionsBuffer := agentActionsBuffer m'\<rparr>"
proof -
  let ?W = "sint w" and ?A = "sint (numAgents env)" and ?N = "uint (numWorlds cfg0)"
  let ?act = "\<lparr>moveAmount = move_amount, moveAngle = move_angle, rotate = r, interact = i\<rparr>"
  have en: "writes_enabled env m"
    using assms(1,2) by (rule lifetime)
  have A: "0 < ?A" using assms(7,8) by simp
  have len: "int (length (agentActionsBuffer m)) = ?N * ?A"
    using A by (simp add: assms(3))
  have "(?W + 1) * ?A \<le> ?N * ?A"
    using assms(6) A by (intro mult_right_mono) simp_all
  then have flat_lt: "?W * ?A + sint a < ?N * ?A"
    using assms(8) by (simp add: algebra_simps)
  have row_ge: "0 \<le> ?W * ?A"
    using assms(5) A by simp
  have big: "?N * ?A < 2 ^ 31"
    using assms(4) len by simp
  have row_lt: "?W * ?A < 2 ^ 31"
    using flat_lt big assms(7) by simp
  have row: "i32_mul w (numAgents env) = Inr (w * numAgents env)"
      "sint (w * numAgents env) = ?W * ?A"
    using row_ge row_lt by (simp_all add: i32_mul_in_range)
  have flat: "i32_add (w * numAgents env) a = Inr (w * numAgents env + a)"
      "sint (w * numAgents env + a) = ?W * ?A + sint a"
    using row_ge flat_lt big assms(7) by (simp_all add: i32_add_in_range row(2))
  have idx: "nat (?W * ?A + sint a) < length (agentActionsBuffer m)"
    using flat_lt len row_ge assms(7) by simp
  have "setAction env m w a move_amount move_angle r i
      = Inr (m\<lparr>agentActionsBuffer := (agentActionsBuffer m)[nat (?W * ?A + sint a) := ?act]\<rparr>)"
    using idx row_ge assms(7)
    by (simp add: setAction_enabled [OF en] row flat write_at_in_range)
  with idx show ?thesis
    by simp
qed

text \<open>
  The claim on the concrete environment: the action of agent 1 of world 1 goes to flat
  index 3, and slot 2 and the reset array are as before.
\<close>

theorem setAction_writes_exactly_one_slot_witness:
  "Manager example_env example_cfg 0 = Inr example_mgr
   \<and> do_calls example_env example_mgr [] = Inr example_mgr
   \<and> length (agentActionsBuffer example_mgr) = 6
   \<and> (\<exists>m'. setAction example_env example_mgr 1 1 5 6 7 8 = Inr m'
         \<and> agentActionsBuffer m' ! 3
             = \<lparr>moveAmount = 5, moveAngle = 6, rotate = 7, interact = 8\<rparr>
         \<and> agentActionsBuffer m' ! 2 = agentActionsBuffer example_mgr ! 2
         \<and> worldResetBuffer m' = worldResetBuffer example_mgr)"
proof -
  have calls: "do_calls example_env example_mgr [] = Inr example_mgr"
    by simp
  have len6: "length (agentActionsBuffer example_mgr) = 6"
    by (simp add: example_mgr_def example_impl_def)
  have nw: "numWorlds example_cfg = 3" and na: "numAgents example_env = 2"
    by (simp_all add: example_cfg_def example_env_def)
  have len: "length (agentActionsBuffer example_mgr)
      = unat (numWorlds example_cfg) * nat (sint (numAgents example_env))"
    by (simp add: len6 nw na)
  have small: "length (agentActionsBuffer example_mgr) < 2 ^ 31"
    by (simp add: len6)
  have w: "0 \<le> sint (1 :: 32 word)" "sint (1 :: 32 word) < uint (numWorlds example_cfg)"
    by (simp_all add: nw)
  have a: "0 \<le> sint (1 :: 32 word)" "sint (1 :: 32 word) < sint (numAgents example_env)"
    by (simp_all add: na)
  from setAction_writes_exactly_one_slot
    [OF Manager_example calls len small w a, of 5 6 7 8]
  obtain m' where "setAction example_env example_mgr 1 1 5 6 7 8 = Inr m'"
    and "agentActionsBuffer m' ! nat (sint (1 :: 32 word) * sint (numAgents example_env) + sint (1 :: 32 word))
          = \<lparr>moveAmount = 5, moveAngle = 6, rotate = 7, interact = 8\<rparr>"
    and "\<forall>j. j \<noteq> nat (sint (1 :: 32 word) * sint (numAgents example_env) + sint (1 :: 32 word))
            \<longrightarrow> agentActionsBuffer m' ! j = agentActionsBuffer example_mgr ! j"
    and "worldResetBuffer m' = worldResetBuffer example_mgr"
    by blast
  then have "setAction example_env example_mgr 1 1 5 6 7 8 = Inr m'
         \<and> agentActionsBuffer m' ! 3
             = \<lparr>moveAmount = 5, moveAngle = 6, rotate = 7, interact = 8\<rparr>
         \<and> agentActionsBuffer m' ! 2 = agentActionsBuffer example_mgr ! 2
         \<and> worldResetBuffer m' = worldResetBuffer example_mgr"
    by (simp add: na)
  with Manager_example calls len6 show ?thesis
    by blast
qed

subsection \<open>Tensor shapes and element types (claims C4 and C3)\<close>

lemma dims_exportTensor [simp]: "dims (exportTensor env m slot ty ds) = ds"
  by (simp add: exportTensor_def split: ImplKind.splits)

lemma elemType_exportTensor [simp]: "elemType (exportTensor env m slot ty ds) = ty"
  by (simp add: exportTensor_def split: ImplKind.splits)

lemma sint_ucast_32_64: "sint (ucast (w :: 32 word) :: 64 word) = uint w"
proof -
  have lo: "- (2 ^ 63) \<le> uint w"
    by (rule order_trans [OF _ uint_nonnegative]) simp
  have hi: "uint w < 2 ^ 63"
    by (rule less_trans [OF uint_lt2p]) simp
  from lo hi have "signed_take_bit 63 (uint w) = uint w"
    by (rule signed_take_bit_int_eq_self)
  then show ?thesis
    by (simp add: signed_ucast_eq)
qed

lemma sint_scast_32_64: "sint (scast (w :: 32 word) :: 64 word) = sint w"
proof -
  have lo: "- (2 ^ 63) \<le> sint w"
    by (rule order_trans [OF _ sint_ge]) simp
  have hi: "sint w < 2 ^ 63"
    by (rule less_trans [OF sint_lt]) simp
  from lo hi have "signed_take_bit 63 (sint w) = sint w"
    by (rule signed_take_bit_int_eq_self)
  then show ?thesis
    by (simp add: signed_scast_eq)
qed

lemma uint_eq_sint_nonneg: "0 \<le> sint (w :: 32 word) \<Longrightarrow> uint w = sint w"
proof -
  assume nn: "0 \<le> sint w"
  have "sint w < 2 ^ 32"
    by (rule less_trans [OF sint_lt]) simp
  with nn have "take_bit 32 (sint w) = sint w"
    by (rule take_bit_int_eq_self)
  then show ?thesis
    by (simp add: uint_sint)
qed

lemma uint_mult_32:
  "uint a * uint b < 2 ^ 32 \<Longrightarrow> uint (a * b :: 32 word) = uint a * uint b"
  by (simp add: uint_word_ariths)

lemma sint_minus_one_32: "0 \<le> sint (w :: 32 word) \<Longrightarrow> sint (w - 1) = sint w - 1"
proof -
  assume nn: "0 \<le> sint w"
  have "sint w < 2 ^ 31"
    using sint_lt [of w] by simp
  then have hi: "sint w - 1 < 2 ^ 31"
    by linarith
  have lo: "- (2 ^ 31) \<le> sint w - 1"
    by (rule order_trans [of _ "- 1"]) (use nn in simp_all)
  from lo hi have "signed_take_bit 31 (sint w - 1) = sint w - 1"
    by (rule signed_take_bit_int_eq_self)
  then show ?thesis
    by (simp add: sint_word_ariths)
qed

text \<open>
  Claim C4. On a Manager at any point of its life, built for \<open>numWorlds\<close> worlds of
  \<open>numAgents\<close> agents (the product below \<open>2 ^ 32\<close>, the width in which the file
  multiplies them), the dimensions of the action tensor are
  \<open>[numWorlds * numAgents, 4]\<close>, of the reward tensor \<open>[numWorlds * numAgents, 1]\<close>,
  and of the partner-observation tensor \<open>[numWorlds * numAgents, numAgents - 1, 3]\<close>.
\<close>

theorem action_reward_partner_shapes:
  assumes "Manager env cfg0 viz_bridge = Inr m0"
    and "do_calls env m0 cs = Inr m"
    and "0 \<le> sint (numAgents env)"
    and "uint (numWorlds cfg0) * sint (numAgents env) < 2 ^ 32"
  shows "map sint (dims (actionTensor env m))
           = [uint (numWorlds cfg0) * sint (numAgents env), 4]
       \<and> map sint (dims (rewardTensor env m))
           = [uint (numWorlds cfg0) * sint (numAgents env), 1]
       \<and> map sint (dims (partnerObservationsTensor env m))
           = [uint (numWorlds cfg0) * sint (numAgents env), sint (numAgents env) - 1, 3]"
proof -
  have c: "cfg m = cfg0"
    using assms(1,2) by (rule lifetime)
  have ua: "uint (numAgents env) = sint (numAgents env)"
    using assms(3) by (rule uint_eq_sint_nonneg)
  have "uint (numWorlds cfg0 * numAgents env) = uint (numWorlds cfg0) * uint (numAgents env)"
    using assms(4) by (intro uint_mult_32) (simp add: ua)
  then have lead: "sint (ucast (numWorlds cfg0 * numAgents env) :: 64 word)
      = uint (numWorlds cfg0) * sint (numAgents env)"
    by (simp add: sint_ucast_32_64 ua)
  have part: "sint (scast (numAgents env - 1) :: 64 word) = sint (numAgents env) - 1"
    using assms(3) by (simp add: sint_scast_32_64 sint_minus_one_32)
  show ?thesis
    by (simp add: actionTensor_def rewardTensor_def partnerObservationsTensor_def c lead part)
qed

text \<open>
  The claim on the concrete environment: three worlds of two agents, after two calls.
\<close>

theorem action_reward_partner_shapes_witness:
  "Manager example_env example_cfg 0 = Inr example_mgr
   \<and> (\<exists>m. do_calls example_env example_mgr [Call_step, Call_triggerReset 2] = Inr m
         \<and> map sint (dims (actionTensor example_env m)) = [6, 4]
         \<and> map sint (dims (rewardTensor example_env m)) = [6, 1]
         \<and> map sint (dims (partnerObservationsTensor example_env m)) = [6, 1, 3])"
proof -
  have nw: "numWorlds example_cfg = 3" and na: "numAgents example_env = 2"
    by (simp_all add: example_cfg_def example_env_def)
  have en: "writes_enabled example_env (step example_env example_mgr)"
    by (simp add: writes_enabled_def step_cfg example_mgr_def example_impl_def example_cfg_def)
  have len: "length (worldResetBuffer (step example_env example_mgr)) = 3"
    by (simp add: step_def run_def Let_def example_env_def example_mgr_def example_impl_def)
  obtain m where calls: "do_calls example_env example_mgr [Call_step, Call_triggerReset 2] = Inr m"
    using len by (simp add: triggerReset_enabled [OF en] write_at_def)
  have nn: "0 \<le> sint (numAgents example_env)"
    by (simp add: na)
  have small: "uint (numWorlds example_cfg) * sint (numAgents example_env) < 2 ^ 32"
    by (simp add: nw na)
  from action_reward_partner_shapes [OF Manager_example calls nn small] calls Manager_example
  show ?thesis
    by (simp add: nw na)
qed

text \<open>
  Claim C3, as the code has it. The element type of each accessor's tensor is a constant of
  the accessor, whatever the state of the Manager: in the order of the file,
  \<^verbatim>\<open>checkpointResetTensor\<close> is \<open>Int32\<close>, \<^verbatim>\<open>checkpointTensor\<close> is \<open>UInt8\<close>
  (the checkpoint is exported as bytes), and the eleven others are \<open>Int32\<close> or
  \<open>Float32\<close>. No accessor returns an unsigned 32-bit type.
\<close>

theorem accessor_element_types:
  "map (\<lambda>acc. elemType (acc env m)) tensor_accessors =
     [ElementType_Int32, ElementType_UInt8, ElementType_Int32, ElementType_Int32,
      ElementType_Float32, ElementType_Int32, ElementType_Float32, ElementType_Float32,
      ElementType_Float32, ElementType_Float32, ElementType_Float32, ElementType_Int32,
      ElementType_Int32]
   \<and> map (\<lambda>acc. elemType (acc env m')) tensor_accessors
     = map (\<lambda>acc. elemType (acc env m)) tensor_accessors
   \<and> map (\<lambda>acc. is_32bit_number (elemType (acc env m))) tensor_accessors =
     [True, False, True, True, True, True, True, True, True, True, True, True, True]"
  by (simp add: tensor_accessors_def checkpointResetTensor_def checkpointTensor_def
      resetTensor_def actionTensor_def rewardTensor_def doneTensor_def
      selfObservationTensor_def partnerObservationsTensor_def
      roomEntityObservationsTensor_def doorObservationTensor_def lidarTensor_def
      stepsRemainingTensor_def agentIDTensor_def is_32bit_number_def)

text \<open>
  Claim C3 as stated fails on the checkpoint accessor: on the Manager of the concrete
  environment its tensor has 8-bit unsigned elements.
\<close>

theorem checkpointTensor_is_bytes_counterexample:
  "Manager example_env example_cfg 0 = Inr example_mgr
   \<and> elemType (checkpointTensor example_env example_mgr) = ElementType_UInt8
   \<and> \<not> is_32bit_number (elemType (checkpointTensor example_env example_mgr))"
  by (simp add: Manager_example checkpointTensor_def is_32bit_number_def)

subsection \<open>The checkpoint flags (claim C10)\<close>

lemma nth_write_at:
  "write_at buf i v = Inr b \<Longrightarrow> length b = length buf \<and> (b ! j = buf ! j \<or> b ! j = v)"
  by (cases "j = nat i") (auto simp: write_at_eq_Inr)

lemma do_call_load_slot:
  assumes "do_call env m c = Inr m'" and "c \<noteq> Call_step"
  shows "length (worldLoadCheckpointBuffer m') = length (worldLoadCheckpointBuffer m)
       \<and> (worldLoadCheckpointBuffer m' ! j = worldLoadCheckpointBuffer m ! j
            \<or> worldLoadCheckpointBuffer m' ! j = 1)"
proof (cases c)
  case Call_step
  with assms(2) show ?thesis by simp
next
  case (Call_triggerReset w)
  with assms(1) show ?thesis
    by (auto simp: triggerReset_def bindE_eq_Inr split: if_splits)
next
  case (Call_setAction w a ma mg r i)
  with assms(1) show ?thesis
    by (auto simp: setAction_def Let_def bindE_eq_Inr split: if_splits)
next
  case (Call_setSaveCheckpoint w v)
  with assms(1) show ?thesis
    by (auto simp: setSaveCheckpoint_def bindE_eq_Inr split: if_splits)
next
  case (Call_triggerLoadCheckpoint w)
  with assms(1) show ?thesis
    using nth_write_at [of "worldLoadCheckpointBuffer m" "sint w" 1 _ j]
    by (auto simp: triggerLoadCheckpoint_def bindE_eq_Inr split: if_splits)
qed

lemma do_calls_load_slot_armed:
  assumes "do_calls env m cs = Inr m'" and "Call_step \<notin> set cs"
    and "worldLoadCheckpointBuffer m ! j = 1"
  shows "worldLoadCheckpointBuffer m' ! j = 1"
  using assms
proof (induction cs arbitrary: m)
  case Nil
  then show ?case by simp
next
  case (Cons c cs)
  then obtain m1 where c: "do_call env m c = Inr m1" and cs: "do_calls env m1 cs = Inr m'"
    by (auto split: sum.splits)
  from Cons.prems(2) have ns: "c \<noteq> Call_step" and rest: "Call_step \<notin> set cs"
    by auto
  from do_call_load_slot [OF c ns, of j] Cons.prems(3)
  have "worldLoadCheckpointBuffer m1 ! j = 1"
    by auto
  with Cons.IH [OF cs rest] show ?case
    by simp
qed

text \<open>
  Claim C10. On a Manager at any point of its life and for a world index inside the two
  checkpoint arrays: \<^verbatim>\<open>triggerLoadCheckpoint(w)\<close> returns and leaves 1 in slot
  \<open>w\<close> of the load array, and no sequence of calls of the Manager's operations that
  contains no step changes that slot again (none of them stores another value there);
  \<^verbatim>\<open>setSaveCheckpoint(w, v)\<close> returns and leaves exactly \<open>v\<close> in slot \<open>w\<close> of
  the save array, so that a following \<^verbatim>\<open>setSaveCheckpoint(w, 0)\<close> leaves 0 there.
\<close>

theorem load_trigger_stays_armed_save_flag_is_verbatim:
  assumes "Manager env cfg0 viz_bridge = Inr m0"
    and "do_calls env m0 cs0 = Inr m"
    and "0 \<le> sint w"
    and "nat (sint w) < length (worldLoadCheckpointBuffer m)"
    and "nat (sint w) < length (worldSaveCheckpointBuffer m)"
  shows "(\<exists>m1. triggerLoadCheckpoint env m w = Inr m1
           \<and> worldLoadCheckpointBuffer m1 ! nat (sint w) = 1
           \<and> (\<forall>cs m2. Call_step \<notin> set cs \<and> do_calls env m1 cs = Inr m2
                 \<longrightarrow> worldLoadCheckpointBuffer m2 ! nat (sint w) = 1))
       \<and> (\<exists>m3. setSaveCheckpoint env m w v = Inr m3
           \<and> worldSaveCheckpointBuffer m3 ! nat (sint w) = v
           \<and> (\<exists>m4. setSaveCheckpoint env m3 w 0 = Inr m4
                 \<and> worldSaveCheckpointBuffer m4 ! nat (sint w) = 0))"
proof -
  have en: "writes_enabled env m"
    using assms(1,2) by (rule lifetime)
  let ?m1 = "m\<lparr>worldLoadCheckpointBuffer := (worldLoadCheckpointBuffer m)[nat (sint w) := 1]\<rparr>"
  have load: "triggerLoadCheckpoint env m w = Inr ?m1"
    using assms(3,4) by (simp add: triggerLoadCheckpoint_enabled [OF en] write_at_in_range)
  have armed: "worldLoadCheckpointBuffer ?m1 ! nat (sint w) = 1"
    using assms(4) by simp
  have stays: "worldLoadCheckpointBuffer m2 ! nat (sint w) = 1"
    if "Call_step \<notin> set cs" and "do_calls env ?m1 cs = Inr m2" for cs m2
    using that(2) that(1) armed by (rule do_calls_load_slot_armed)
  let ?m3 = "m\<lparr>worldSaveCheckpointBuffer := (worldSaveCheckpointBuffer m)[nat (sint w) := v]\<rparr>"
  let ?m4 = "?m3\<lparr>worldSaveCheckpointBuffer := (worldSaveCheckpointBuffer ?m3)[nat (sint w) := 0]\<rparr>"
  have en3: "writes_enabled env ?m3"
    using en by (simp add: writes_enabled_def)
  have save: "setSaveCheckpoint env m w v = Inr ?m3"
    using assms(3,5) by (simp add: setSaveCheckpoint_enabled [OF en] write_at_in_range)
  have disarm: "setSaveCheckpoint env ?m3 w 0 = Inr ?m4"
    using assms(3,5) by (simp add: setSaveCheckpoint_enabled [OF en3] write_at_in_range)
  have s3: "worldSaveCheckpointBuffer ?m3 ! nat (sint w) = v"
    and s4: "worldSaveCheckpointBuffer ?m4 ! nat (sint w) = 0"
    using assms(5) by simp_all
  from load armed stays have first: "\<exists>m1. triggerLoadCheckpoint env m w = Inr m1
           \<and> worldLoadCheckpointBuffer m1 ! nat (sint w) = 1
           \<and> (\<forall>cs m2. Call_step \<notin> set cs \<and> do_calls env m1 cs = Inr m2
                 \<longrightarrow> worldLoadCheckpointBuffer m2 ! nat (sint w) = 1)"
    by blast
  from save disarm s3 s4 have second: "\<exists>m3. setSaveCheckpoint env m w v = Inr m3
           \<and> worldSaveCheckpointBuffer m3 ! nat (sint w) = v
           \<and> (\<exists>m4. setSaveCheckpoint env m3 w 0 = Inr m4
                 \<and> worldSaveCheckpointBuffer m4 ! nat (sint w) = 0)"
    by blast
  from first second show ?thesis
    by (rule conjI)
qed

text \<open>
  The claim on the concrete environment: world 1 is armed for a load, four other calls
  follow, and its slot still holds 1; a save armed for world 1 is disarmed by the value 0.
\<close>

theorem load_trigger_stays_armed_save_flag_is_verbatim_witness:
  "Manager example_env example_cfg 0 = Inr example_mgr
   \<and> (\<exists>m1 m2. triggerLoadCheckpoint example_env example_mgr 1 = Inr m1
         \<and> worldLoadCheckpointBuffer m1 = [0, 1, 0]
         \<and> do_calls example_env m1
              [Call_triggerReset 0, Call_setSaveCheckpoint 1 0, Call_setAction 1 0 1 2 3 4,
               Call_triggerLoadCheckpoint 2] = Inr m2
         \<and> worldLoadCheckpointBuffer m2 ! 1 = 1)
   \<and> (\<exists>m3 m4. setSaveCheckpoint example_env example_mgr 1 1 = Inr m3
         \<and> worldSaveCheckpointBuffer m3 ! 1 = 1
         \<and> setSaveCheckpoint example_env m3 1 0 = Inr m4
         \<and> worldSaveCheckpointBuffer m4 ! 1 = 0)"
proof -
  let ?cs = "[Call_triggerReset 0, Call_setSaveCheckpoint 1 0, Call_setAction 1 0 1 2 3 4,
               Call_triggerLoadCheckpoint 2]"
  have calls0: "do_calls example_env example_mgr [] = Inr example_mgr"
    by simp
  have w: "0 \<le> sint (1 :: 32 word)"
    by simp
  have l1: "nat (sint (1 :: 32 word)) < length (worldLoadCheckpointBuffer example_mgr)"
    and l2: "nat (sint (1 :: 32 word)) < length (worldSaveCheckpointBuffer example_mgr)"
    by (simp_all add: example_mgr_def example_impl_def)
  note t = load_trigger_stays_armed_save_flag_is_verbatim
    [OF Manager_example calls0 w l1 l2, of 1]
  from t obtain m1 where a1: "triggerLoadCheckpoint example_env example_mgr 1 = Inr m1"
    and a2: "\<forall>cs m2. Call_step \<notin> set cs \<and> do_calls example_env m1 cs = Inr m2
                 \<longrightarrow> worldLoadCheckpointBuffer m2 ! nat (sint (1 :: 32 word)) = 1"
    by blast
  have mode: "execMode example_cfg = ExecMode_CPU" and na: "numAgents example_env = 2"
    by (simp_all add: example_cfg_def example_env_def)
  have e1: "triggerLoadCheckpoint example_env example_mgr 1
      = Inr (example_mgr\<lparr>worldLoadCheckpointBuffer := [0, 1, 0]\<rparr>)"
    by (simp add: triggerLoadCheckpoint_def write_at_def example_mgr_def example_impl_def mode)
  with a1 have m1: "m1 = example_mgr\<lparr>worldLoadCheckpointBuffer := [0, 1, 0]\<rparr>"
    by simp
  have "\<exists>m2. do_calls example_env m1 ?cs = Inr m2"
    by (simp add: m1 triggerReset_def setSaveCheckpoint_def setAction_def
        triggerLoadCheckpoint_def write_at_def i32_mul_def i32_add_def
        example_mgr_def example_impl_def mode na)
  then obtain m2 where c2: "do_calls example_env m1 ?cs = Inr m2"
    by blast
  have "Call_step \<notin> set ?cs"
    by simp
  with a2 c2 have "worldLoadCheckpointBuffer m2 ! nat (sint (1 :: 32 word)) = 1"
    by blast
  then have r2: "worldLoadCheckpointBuffer m2 ! 1 = 1"
    by simp
  have first: "\<exists>m1 m2. triggerLoadCheckpoint example_env example_mgr 1 = Inr m1
         \<and> worldLoadCheckpointBuffer m1 = [0, 1, 0]
         \<and> do_calls example_env m1 ?cs = Inr m2
         \<and> worldLoadCheckpointBuffer m2 ! 1 = 1"
    using a1 m1 c2 r2 by auto
  from t obtain m3 m4 where "setSaveCheckpoint example_env example_mgr 1 1 = Inr m3"
    and "worldSaveCheckpointBuffer m3 ! nat (sint (1 :: 32 word)) = 1"
    and "setSaveCheckpoint example_env m3 1 0 = Inr m4"
    and "worldSaveCheckpointBuffer m4 ! nat (sint (1 :: 32 word)) = 0"
    by blast
  then have second: "\<exists>m3 m4. setSaveCheckpoint example_env example_mgr 1 1 = Inr m3
         \<and> worldSaveCheckpointBuffer m3 ! 1 = 1
         \<and> setSaveCheckpoint example_env m3 1 0 = Inr m4
         \<and> worldSaveCheckpointBuffer m4 ! 1 = 0"
    by auto
  from Manager_example first second show ?thesis
    by blast
qed

subsection \<open>Asset loading (claim C8)\<close>

lemma setupHull_in_range:
  assumes "SimObject_idx obj_id < length (objects imported)"
    and "SimObject_idx obj_id < length (src_objs st)"
  shows "\<exists>st'. setupHull imported obj_id inv_mass fr st = Inr st'
           \<and> length (src_objs st') = length (src_objs st)"
  using assms by (simp add: setupHull_def Let_def split: prod.splits)

lemma setupHulls_in_range:
  assumes "length (objects imported) = 6"
  shows "\<exists>st. setupHulls imported = Inr st \<and> length (src_objs st) = 7"
proof -
  let ?s0 = "\<lparr>src_convex_hulls = [], prim_arrays = [],
               src_objs = replicate 7 None\<rparr>"
  have l0: "length (src_objs ?s0) = 7"
    by simp
  obtain s1 where s1: "setupHull imported SimObject_Cube f32_0_075
      \<lparr>muS = f32_0_5, muD = f32_0_75\<rparr> ?s0 = Inr s1" and l1: "length (src_objs s1) = 7"
    using setupHull_in_range [of SimObject_Cube imported ?s0] assms l0 by auto
  obtain s2 where s2: "setupHull imported SimObject_Wall f32_0
      \<lparr>muS = f32_0_5, muD = f32_0_5\<rparr> s1 = Inr s2" and l2: "length (src_objs s2) = 7"
    using setupHull_in_range [of SimObject_Wall imported s1] assms l1 by auto
  obtain s3 where s3: "setupHull imported SimObject_Door f32_0
      \<lparr>muS = f32_0_5, muD = f32_0_5\<rparr> s2 = Inr s3" and l3: "length (src_objs s3) = 7"
    using setupHull_in_range [of SimObject_Door imported s2] assms l2 by auto
  obtain s4 where s4: "setupHull imported SimObject_Agent f32_1
      \<lparr>muS = f32_0_5, muD = f32_0_5\<rparr> s3 = Inr s4" and l4: "length (src_objs s4) = 7"
    using setupHull_in_range [of SimObject_Agent imported s3] assms l3 by auto
  obtain s5 where s5: "setupHull imported SimObject_Button f32_1
      \<lparr>muS = f32_0_5, muD = f32_0_5\<rparr> s4 = Inr s5" and l5: "length (src_objs s5) = 7"
    using setupHull_in_range [of SimObject_Button imported s4] assms l4 by auto
  obtain s6 where s6: "setupHull imported SimObject_Key f32_1
      \<lparr>muS = f32_0_5, muD = f32_0_5\<rparr> s5 = Inr s6" and l6: "length (src_objs s6) = 7"
    using setupHull_in_range [of SimObject_Key imported s5] assms l5 by auto
  show ?thesis
    by (simp add: setupHulls_def s1 s2 s3 s4 s5 s6 l6)
qed

lemma constrain_agent_in_range:
  assumes "SimObject_idx SimObject_Agent < length (metadatas assets)"
  shows "constrain_agent assets =
     Inr (assets\<lparr>metadatas := (metadatas assets)
            [SimObject_idx SimObject_Agent :=
               set_invInertia_y f32_0
                 (set_invInertia_x f32_0 (metadatas assets ! SimObject_idx SimObject_Agent))]\<rparr>)"
  using assms by (simp add: constrain_agent_def Let_def)

lemma agent_constrained_run:
  assumes "importFromDisk env (asset_paths env) True = Inr imported"
    and "setupHulls imported = Inr st"
    and "processRigidBodyAssets env (src_convex_hulls st) (src_objs st) False = Some assets"
    and "SimObject_idx SimObject_Agent < length (metadatas assets)"
  shows "loadPhysicsObjects env loader =
     Inr (loadRigidBodies loader
       (assets\<lparr>metadatas := (metadatas assets)
          [SimObject_idx SimObject_Agent :=
             set_invInertia_y f32_0
               (set_invInertia_x f32_0 (metadatas assets ! SimObject_idx SimObject_Agent))]\<rparr>))"
  by (simp add: loadPhysicsObjects_def assms(1,2,3) constrain_agent_in_range [OF assms(4)])

text \<open>
  Claim C8. Where the import and the processing succeed (the catalog holding an entry for
  the agent), \<^verbatim>\<open>loadPhysicsObjects\<close> hands the physics loader a catalog that differs
  from the one the processing produced in two values only: the \<^verbatim>\<open>x\<close> and the
  \<^verbatim>\<open>y\<close> component of the agent's inverse inertia tensor are zero. Its \<^verbatim>\<open>z\<close>
  component, the rest of the agent's entry and the entry of every other object are as the
  processing produced them.
\<close>

theorem agent_inverse_inertia_x_y_zeroed:
  assumes "importFromDisk env (asset_paths env) True = Inr imported"
    and "setupHulls imported = Inr st"
    and "processRigidBodyAssets env (src_convex_hulls st) (src_objs st) False = Some assets"
    and "SimObject_idx SimObject_Agent < length (metadatas assets)"
  shows "\<exists>loaded. loadPhysicsObjects env loader = Inr (loadRigidBodies loader loaded)
      \<and> vec_x (invInertiaTensor (mass (metadatas loaded ! SimObject_idx SimObject_Agent))) = 0
      \<and> vec_y (invInertiaTensor (mass (metadatas loaded ! SimObject_idx SimObject_Agent))) = 0
      \<and> vec_z (invInertiaTensor (mass (metadatas loaded ! SimObject_idx SimObject_Agent)))
          = vec_z (invInertiaTensor (mass (metadatas assets ! SimObject_idx SimObject_Agent)))
      \<and> massOther (mass (metadatas loaded ! SimObject_idx SimObject_Agent))
          = massOther (mass (metadatas assets ! SimObject_idx SimObject_Agent))
      \<and> metadataOther (metadatas loaded ! SimObject_idx SimObject_Agent)
          = metadataOther (metadatas assets ! SimObject_idx SimObject_Agent)
      \<and> length (metadatas loaded) = length (metadatas assets)
      \<and> (\<forall>i. i \<noteq> SimObject_idx SimObject_Agent
            \<longrightarrow> metadatas loaded ! i = metadatas assets ! i)
      \<and> assetsOther loaded = assetsOther assets"
proof -
  let ?ag = "SimObject_idx SimObject_Agent"
  let ?loaded = "assets\<lparr>metadatas := (metadatas assets)
            [?ag := set_invInertia_y f32_0 (set_invInertia_x f32_0 (metadatas assets ! ?ag))]\<rparr>"
  have run: "loadPhysicsObjects env loader = Inr (loadRigidBodies loader ?loaded)"
    using assms by (rule agent_constrained_run)
  have at: "metadatas ?loaded ! ?ag
      = set_invInertia_y f32_0 (set_invInertia_x f32_0 (metadatas assets ! ?ag))"
    using assms(4) by simp
  have "vec_x (invInertiaTensor (mass (metadatas ?loaded ! ?ag))) = 0
      \<and> vec_y (invInertiaTensor (mass (metadatas ?loaded ! ?ag))) = 0
      \<and> vec_z (invInertiaTensor (mass (metadatas ?loaded ! ?ag)))
          = vec_z (invInertiaTensor (mass (metadatas assets ! ?ag)))
      \<and> massOther (mass (metadatas ?loaded ! ?ag)) = massOther (mass (metadatas assets ! ?ag))
      \<and> metadataOther (metadatas ?loaded ! ?ag) = metadataOther (metadatas assets ! ?ag)"
    unfolding at by (simp add: set_invInertia_x_def set_invInertia_y_def f32_0_def)
  moreover have "length (metadatas ?loaded) = length (metadatas assets)
      \<and> (\<forall>i. i \<noteq> ?ag \<longrightarrow> metadatas ?loaded ! i = metadatas assets ! i)
      \<and> assetsOther ?loaded = assetsOther assets"
    by simp
  ultimately show ?thesis
    using run by blast
qed

text \<open>
  The claim on the concrete environment: the agent's tensor \<open>(1, 0.5, 0.75)\<close> becomes
  \<open>(0, 0, 0.75)\<close>, the door's entry is untouched.
\<close>

theorem agent_inverse_inertia_x_y_zeroed_witness:
  "\<exists>st loaded.
     importFromDisk example_env (asset_paths example_env) True
       = Inr \<lparr>objects = map (\<lambda>p. [SourceMesh (length p)]) (asset_paths example_env)\<rparr>
     \<and> setupHulls \<lparr>objects = map (\<lambda>p. [SourceMesh (length p)]) (asset_paths example_env)\<rparr>
         = Inr st
     \<and> processRigidBodyAssets example_env (src_convex_hulls st) (src_objs st) False
         = Some example_assets
     \<and> loadPhysicsObjects example_env (newPhysicsLoader ExecMode_CPU 10)
         = Inr (loadRigidBodies (newPhysicsLoader ExecMode_CPU 10) loaded)
     \<and> invInertiaTensor (mass (metadatas example_assets ! 3))
         = \<lparr>vec_x = f32_1, vec_y = f32_0_5, vec_z = f32_0_75\<rparr>
     \<and> invInertiaTensor (mass (metadatas loaded ! 3))
         = \<lparr>vec_x = 0, vec_y = 0, vec_z = f32_0_75\<rparr>
     \<and> metadatas loaded ! 2 = example_metadata 2"
proof -
  let ?imp = "\<lparr>objects = map (\<lambda>p. [SourceMesh (length p)]) (asset_paths example_env)\<rparr>"
  obtain st where st: "setupHulls ?imp = Inr st"
    using setupHulls_example by blast
  have imp: "importFromDisk example_env (asset_paths example_env) True = Inr ?imp"
    by (simp add: example_env_def)
  have pr: "processRigidBodyAssets example_env (src_convex_hulls st) (src_objs st) False
      = Some example_assets"
    by (simp add: example_env_def)
  have ag: "SimObject_idx SimObject_Agent < length (metadatas example_assets)"
    by (simp add: example_assets_def)
  have before: "invInertiaTensor (mass (metadatas example_assets ! 3))
         = \<lparr>vec_x = f32_1, vec_y = f32_0_5, vec_z = f32_0_75\<rparr>"
    and door: "metadatas example_assets ! 2 = example_metadata 2"
    by (simp_all add: example_assets_def example_metadata_def)
  from agent_inverse_inertia_x_y_zeroed [OF imp st pr ag, of "newPhysicsLoader ExecMode_CPU 10"]
  obtain loaded where l: "loadPhysicsObjects example_env (newPhysicsLoader ExecMode_CPU 10)
         = Inr (loadRigidBodies (newPhysicsLoader ExecMode_CPU 10) loaded)"
    and x: "vec_x (invInertiaTensor (mass (metadatas loaded ! 3))) = 0"
    and y: "vec_y (invInertiaTensor (mass (metadatas loaded ! 3))) = 0"
    and z: "vec_z (invInertiaTensor (mass (metadatas loaded ! 3)))
          = vec_z (invInertiaTensor (mass (metadatas example_assets ! 3)))"
    and others: "\<forall>i. i \<noteq> 3 \<longrightarrow> metadatas loaded ! i = metadatas example_assets ! i"
    by auto
  from x y z before have after: "invInertiaTensor (mass (metadatas loaded ! 3))
         = \<lparr>vec_x = 0, vec_y = 0, vec_z = f32_0_75\<rparr>"
    by (cases "invInertiaTensor (mass (metadatas loaded ! 3))") simp
  from others door have d: "metadatas loaded ! 2 = example_metadata 2"
    by simp
  from imp st pr l before after d show ?thesis
    by blast
qed

subsection \<open>Backend construction (claim C7)\<close>

lemma length_asset_paths [simp]: "length (asset_paths env) = 6"
  by (simp add: asset_paths_def)

lemma loadPhysicsObjects_outcome:
  assumes "\<forall>imported. importFromDisk env (asset_paths env) True = Inr imported
             \<longrightarrow> length (objects imported) = length (asset_paths env)"
    and "\<forall>hulls objs assets. processRigidBodyAssets env hulls objs False = Some assets
             \<longrightarrow> SimObject_idx SimObject_Agent < length (metadatas assets)"
  shows "(\<exists>msg. loadPhysicsObjects env loader = Inl (FATAL msg))
       \<or> (\<exists>assets. loadPhysicsObjects env loader = Inr (loadRigidBodies loader assets))"
proof (cases "importFromDisk env (asset_paths env) True")
  case (Inl msg)
  then show ?thesis
    by (simp add: loadPhysicsObjects_def)
next
  case (Inr imported)
  with assms(1) have "length (objects imported) = 6"
    by simp
  then obtain st where st: "setupHulls imported = Inr st"
    using setupHulls_in_range by blast
  show ?thesis
  proof (cases "processRigidBodyAssets env (src_convex_hulls st) (src_objs st) False")
    case None
    with Inr st show ?thesis
      by (simp add: loadPhysicsObjects_def)
  next
    case (Some assets)
    with assms(2) have "SimObject_idx SimObject_Agent < length (metadatas assets)"
      by blast
    from agent_constrained_run [OF Inr st Some this, of loader] show ?thesis
      by blast
  qed
qed

lemma init_CPU:
  "execMode c = ExecMode_CPU \<Longrightarrow>
   init env c v =
     bindE (loadPhysicsObjects env (newPhysicsLoader ExecMode_CPU 10)) (\<lambda>phys_loader.
       Inr (Some (new_Impl CPUImpl c phys_loader
         (newExecutor env ExecMode_CPU (make_sim_cfg c v) (make_world_inits c phys_loader v)
            (numWorlds c) (ExportID_u32 ExportID_NumExports)))))"
  by (simp add: init_def Let_def)

lemma init_CUDA:
  "execMode c = ExecMode_CUDA \<Longrightarrow> MADRONA_CUDA_SUPPORT env \<Longrightarrow>
   init env c v =
     bindE (loadPhysicsObjects env (newPhysicsLoader ExecMode_CUDA 10)) (\<lambda>phys_loader.
       Inr (Some (new_Impl CUDAImpl c phys_loader
         (newExecutor env ExecMode_CUDA (make_sim_cfg c v) (make_world_inits c phys_loader v)
            (numWorlds c) (ExportID_u32 ExportID_NumExports)))))"
  by (simp add: init_def Let_def)

lemma init_selected:
  assumes "execMode c = ExecMode_CPU \<or> execMode c = ExecMode_CUDA \<and> MADRONA_CUDA_SUPPORT env"
  shows "\<exists>mode k. init env c v =
     bindE (loadPhysicsObjects env (newPhysicsLoader mode 10)) (\<lambda>phys_loader.
       Inr (Some (new_Impl k c phys_loader
         (newExecutor env mode (make_sim_cfg c v) (make_world_inits c phys_loader v)
            (numWorlds c) (ExportID_u32 ExportID_NumExports)))))
     \<and> (k = CUDAImpl \<longleftrightarrow> execMode c = ExecMode_CUDA)"
proof (cases "execMode c = ExecMode_CPU")
  case True
  from init_CPU [OF True, of env v] True show ?thesis
    by (intro exI [of _ ExecMode_CPU] exI [of _ CPUImpl]) simp
next
  case False
  with assms have cuda: "execMode c = ExecMode_CUDA" and sup: "MADRONA_CUDA_SUPPORT env"
    by simp_all
  from init_CUDA [OF cuda sup, of v] cuda show ?thesis
    by (intro exI [of _ ExecMode_CUDA] exI [of _ CUDAImpl]) simp
qed

lemma init_not_null: "init env c v \<noteq> Inr None"
proof (cases "execMode c")
  case ExecMode_CPU
  then show ?thesis
    by (cases "loadPhysicsObjects env (newPhysicsLoader ExecMode_CPU 10)")
      (simp_all add: init_CPU)
next
  case ExecMode_CUDA
  then show ?thesis
    by (cases "MADRONA_CUDA_SUPPORT env";
        cases "loadPhysicsObjects env (newPhysicsLoader ExecMode_CUDA 10)")
      (simp_all add: init_def Let_def)
next
  case ExecMode_Other
  then show ?thesis
    by (simp add: init_def Let_def)
qed

text \<open>
  Claim C7. \<^verbatim>\<open>init\<close> never returns the null pointer. Requesting CUDA without CUDA
  support, a failed import, a rejected hull input and a selector outside the two modes
  each end in \<^verbatim>\<open>FATAL\<close> or \<^verbatim>\<open>MADRONA_UNREACHABLE\<close>. Where the library keeps its
  contract (the importer returns one object per path, the processing returns a catalog with
  an entry for the agent), \<^verbatim>\<open>init\<close> has two outcomes only: it aborts, or it returns a
  backend of the requested kind holding the configuration and one loaded catalog.
\<close>

theorem init_returns_backend_or_aborts:
  assumes "\<forall>imported. importFromDisk env (asset_paths env) True = Inr imported
             \<longrightarrow> length (objects imported) = length (asset_paths env)"
    and "\<forall>hulls objs assets. processRigidBodyAssets env hulls objs False = Some assets
             \<longrightarrow> SimObject_idx SimObject_Agent < length (metadatas assets)"
  shows "init env c v \<noteq> Inr None
     \<and> (execMode c = ExecMode_CUDA \<and> \<not> MADRONA_CUDA_SUPPORT env
          \<longrightarrow> init env c v = Inl (FATAL ''Madrona was not compiled with CUDA support''))
     \<and> (\<forall>msg. (execMode c = ExecMode_CPU
                  \<or> execMode c = ExecMode_CUDA \<and> MADRONA_CUDA_SUPPORT env)
               \<and> importFromDisk env (asset_paths env) True = Inl msg
          \<longrightarrow> init env c v = Inl (FATAL msg))
     \<and> (\<forall>imported st. (execMode c = ExecMode_CPU
                  \<or> execMode c = ExecMode_CUDA \<and> MADRONA_CUDA_SUPPORT env)
               \<and> importFromDisk env (asset_paths env) True = Inr imported
               \<and> setupHulls imported = Inr st
               \<and> processRigidBodyAssets env (src_convex_hulls st) (src_objs st) False = None
          \<longrightarrow> init env c v = Inl (FATAL ''Invalid collision hull input''))
     \<and> (execMode c = ExecMode_Other \<longrightarrow> init env c v = Inl MADRONA_UNREACHABLE)
     \<and> ((\<exists>e. init env c v = Inl e \<and> aborts e)
          \<or> (\<exists>m. init env c v = Inr (Some m) \<and> cfg m = c
                \<and> (implKind m = CUDAImpl \<longleftrightarrow> execMode c = ExecMode_CUDA)
                \<and> length (loadedRigidBodies (physicsLoader m)) = 1))"
proof -
  let ?sel = "execMode c = ExecMode_CPU \<or> execMode c = ExecMode_CUDA \<and> MADRONA_CUDA_SUPPORT env"
  have no_cuda: "init env c v = Inl (FATAL ''Madrona was not compiled with CUDA support'')"
    if "execMode c = ExecMode_CUDA" and "\<not> MADRONA_CUDA_SUPPORT env"
    using that by (simp add: init_def Let_def)
  have other: "init env c v = Inl MADRONA_UNREACHABLE" if "execMode c = ExecMode_Other"
    using that by (simp add: init_def Let_def)
  have import_failed: "init env c v = Inl (FATAL msg)"
    if "?sel" and "importFromDisk env (asset_paths env) True = Inl msg" for msg
  proof -
    from init_selected [OF that(1), of v] obtain mode k where "init env c v =
       bindE (loadPhysicsObjects env (newPhysicsLoader mode 10)) (\<lambda>phys_loader.
         Inr (Some (new_Impl k c phys_loader
           (newExecutor env mode (make_sim_cfg c v) (make_world_inits c phys_loader v)
              (numWorlds c) (ExportID_u32 ExportID_NumExports)))))"
      by blast
    then show ?thesis
      by (simp add: loadPhysicsObjects_def that(2))
  qed
  have hull_failed: "init env c v = Inl (FATAL ''Invalid collision hull input'')"
    if "?sel" and "importFromDisk env (asset_paths env) True = Inr imported"
      and "setupHulls imported = Inr st"
      and "processRigidBodyAssets env (src_convex_hulls st) (src_objs st) False = None"
    for imported st
  proof -
    from init_selected [OF that(1), of v] obtain mode k where "init env c v =
       bindE (loadPhysicsObjects env (newPhysicsLoader mode 10)) (\<lambda>phys_loader.
         Inr (Some (new_Impl k c phys_loader
           (newExecutor env mode (make_sim_cfg c v) (make_world_inits c phys_loader v)
              (numWorlds c) (ExportID_u32 ExportID_NumExports)))))"
      by blast
    then show ?thesis
      by (simp add: loadPhysicsObjects_def that(2,3,4))
  qed
  have outcome: "(\<exists>e. init env c v = Inl e \<and> aborts e)
          \<or> (\<exists>m. init env c v = Inr (Some m) \<and> cfg m = c
                \<and> (implKind m = CUDAImpl \<longleftrightarrow> execMode c = ExecMode_CUDA)
                \<and> length (loadedRigidBodies (physicsLoader m)) = 1)"
  proof (cases "?sel")
    case True
    from init_selected [OF True, of v] obtain mode k where i: "init env c v =
       bindE (loadPhysicsObjects env (newPhysicsLoader mode 10)) (\<lambda>phys_loader.
         Inr (Some (new_Impl k c phys_loader
           (newExecutor env mode (make_sim_cfg c v) (make_world_inits c phys_loader v)
              (numWorlds c) (ExportID_u32 ExportID_NumExports)))))"
      and k: "k = CUDAImpl \<longleftrightarrow> execMode c = ExecMode_CUDA"
      by blast
    from loadPhysicsObjects_outcome [OF assms, of "newPhysicsLoader mode 10"]
    show ?thesis
    proof
      assume "\<exists>msg. loadPhysicsObjects env (newPhysicsLoader mode 10) = Inl (FATAL msg)"
      then show ?thesis
        by (auto simp: i aborts_def)
    next
      assume "\<exists>assets. loadPhysicsObjects env (newPhysicsLoader mode 10)
          = Inr (loadRigidBodies (newPhysicsLoader mode 10) assets)"
      then show ?thesis
        using k by (auto simp: i new_Impl_def loadRigidBodies_def newPhysicsLoader_def)
    qed
  next
    case False
    then consider "execMode c = ExecMode_CUDA" "\<not> MADRONA_CUDA_SUPPORT env"
      | "execMode c = ExecMode_Other"
      by (cases "execMode c") auto
    then show ?thesis
    proof cases
      case 1
      then show ?thesis
        by (simp add: no_cuda aborts_def)
    next
      case 2
      then show ?thesis
        by (simp add: other aborts_def)
    qed
  qed
  from init_not_null no_cuda import_failed hull_failed other outcome show ?thesis
    by blast
qed

lemma example_env_contract:
  "\<forall>imported. importFromDisk example_env (asset_paths example_env) True = Inr imported
     \<longrightarrow> length (objects imported) = length (asset_paths example_env)"
  "\<forall>hulls objs assets. processRigidBodyAssets example_env hulls objs False = Some assets
     \<longrightarrow> SimObject_idx SimObject_Agent < length (metadatas assets)"
  by (auto simp: example_env_def example_assets_def)

text \<open>
  The claim on the concrete environment and on three variants of it: the CPU backend is
  returned; CUDA is requested where it is not compiled in; the importer fails; the
  processing rejects the hulls; the selector is neither mode.
\<close>

theorem init_returns_backend_or_aborts_witness:
  "init example_env example_cfg 0 = Inr (Some example_impl)
   \<and> init example_env example_cfg 0 \<noteq> Inr None
   \<and> init example_env (example_cfg\<lparr>execMode := ExecMode_CUDA\<rparr>) 0
       = Inl (FATAL ''Madrona was not compiled with CUDA support'')
   \<and> init (example_env\<lparr>importFromDisk := (\<lambda>paths one. Inl ''no such file'')\<rparr>) example_cfg 0
       = Inl (FATAL ''no such file'')
   \<and> init (example_env\<lparr>processRigidBodyAssets := (\<lambda>hulls objs build. None)\<rparr>) example_cfg 0
       = Inl (FATAL ''Invalid collision hull input'')
   \<and> init example_env (example_cfg\<lparr>execMode := ExecMode_Other\<rparr>) 0 = Inl MADRONA_UNREACHABLE
   \<and> aborts (FATAL ''no such file'') \<and> aborts MADRONA_UNREACHABLE"
proof -
  let ?env_i = "example_env\<lparr>importFromDisk := (\<lambda>paths one. Inl ''no such file'')\<rparr>"
  let ?env_h = "example_env\<lparr>processRigidBodyAssets := (\<lambda>hulls objs build. None)\<rparr>"
  let ?imp = "\<lparr>objects = map (\<lambda>p. [SourceMesh (length p)]) (asset_paths example_env)\<rparr>"
  have cpu: "execMode example_cfg = ExecMode_CPU"
    by (simp add: example_cfg_def)
  have nosup: "\<not> MADRONA_CUDA_SUPPORT example_env"
    by (simp add: example_env_def)
  have ci_i: "\<forall>imported. importFromDisk ?env_i (asset_paths ?env_i) True = Inr imported
     \<longrightarrow> length (objects imported) = length (asset_paths ?env_i)"
    and cp_i: "\<forall>hulls objs assets. processRigidBodyAssets ?env_i hulls objs False = Some assets
     \<longrightarrow> SimObject_idx SimObject_Agent < length (metadatas assets)"
    by (auto simp: example_env_def example_assets_def)
  have ci_h: "\<forall>imported. importFromDisk ?env_h (asset_paths ?env_h) True = Inr imported
     \<longrightarrow> length (objects imported) = length (asset_paths ?env_h)"
    and cp_h: "\<forall>hulls objs assets. processRigidBodyAssets ?env_h hulls objs False = Some assets
     \<longrightarrow> SimObject_idx SimObject_Agent < length (metadatas assets)"
    by (auto simp: example_env_def)
  note t = init_returns_backend_or_aborts [OF example_env_contract]
  have a: "init example_env example_cfg 0 \<noteq> Inr None"
    using t [of example_cfg 0] by blast
  have b: "init example_env (example_cfg\<lparr>execMode := ExecMode_CUDA\<rparr>) 0
       = Inl (FATAL ''Madrona was not compiled with CUDA support'')"
    using t [of "example_cfg\<lparr>execMode := ExecMode_CUDA\<rparr>" 0] nosup by simp
  have e: "init example_env (example_cfg\<lparr>execMode := ExecMode_Other\<rparr>) 0 = Inl MADRONA_UNREACHABLE"
    using t [of "example_cfg\<lparr>execMode := ExecMode_Other\<rparr>" 0] by simp
  have "importFromDisk ?env_i (asset_paths ?env_i) True = Inl ''no such file''"
    by simp
  with init_returns_backend_or_aborts [OF ci_i cp_i, of example_cfg 0] cpu
  have c: "init ?env_i example_cfg 0 = Inl (FATAL ''no such file'')"
    by blast
  have paths: "asset_paths ?env_h = asset_paths example_env"
    by (simp add: asset_paths_def)
  obtain st where st: "setupHulls ?imp = Inr st"
    using setupHulls_example by blast
  have "importFromDisk ?env_h (asset_paths ?env_h) True = Inr ?imp"
    by (simp add: paths) (simp add: example_env_def)
  moreover have "processRigidBodyAssets ?env_h (src_convex_hulls st) (src_objs st) False = None"
    by simp
  ultimately have d: "init ?env_h example_cfg 0 = Inl (FATAL ''Invalid collision hull input'')"
    using init_returns_backend_or_aborts [OF ci_h cp_h, of example_cfg 0] cpu st by blast
  have f: "aborts (FATAL ''no such file'')" "aborts MADRONA_UNREACHABLE"
    by (simp_all add: aborts_def)
  from init_example a b c d e f show ?thesis
    by blast
qed

subsection \<open>The GPU rollout (claims C2, C6 and C9)\<close>

lemma copyToSim_next_ok:
  "b + c < length bufs \<Longrightarrow>
   copyToSim_next strm bufs b t (c, q) = Inr (Suc c, q @ [copy_in_op strm bufs (b + c) t])"
  by (simp add: copyToSim_next_def read_buffer_def copyToSim_def copy_in_op_def)

lemma copyFromSim_next_ok:
  "b + c < length bufs \<Longrightarrow>
   copyFromSim_next strm bufs b t (c, q) = Inr (Suc c, q @ [copy_out_op strm bufs (b + c) t])"
  by (simp add: copyFromSim_next_def read_buffer_def copyFromSim_def copy_out_op_def)

lemma copy_named_out_ok:
  "b + c + length ts \<le> length bufs \<Longrightarrow>
   copy_named_out strm bufs b ts (c, q) =
     Inr (c + length ts,
          q @ map (\<lambda>(k, t). copy_out_op strm bufs k t) (enumerate (b + c) (map hdl ts)))"
proof (induction ts arbitrary: c q)
  case Nil
  then show ?case by simp
next
  case (Cons t ts)
  then have here: "b + c < length bufs" and rest: "b + Suc c + length ts \<le> length bufs"
    by simp_all
  show ?case
    by (simp add: copyFromSim_next_ok [OF here] Cons.IH [OF rest])
qed

lemma length_rollout_outputs_spec:
  "length (rollout_outputs_spec iface) + 2 = output_buffers_offset iface"
  by (simp add: rollout_outputs_spec_def output_buffers_offset_def split: option.splits)

lemma gpuRollout_closed:
  assumes "2 * output_buffers_offset iface \<le> length buffers"
  shows "gpuRollout strm buffers iface q =
     Inr (q @ rollout_ops_spec strm buffers (output_buffers_offset iface + 2) iface)"
proof -
  let ?no = "length (observations iface)" and ?ns = "length (stats iface)"
  have "4 \<le> output_buffers_offset iface"
    by (simp add: output_buffers_offset_def)
  with assms have "8 \<le> length buffers"
    by linarith
  then have c0: "0 + 0 < length buffers" and c1: "0 + Suc 0 < length buffers"
    by linarith+
  have e1: "copyToSim_next strm buffers 0 (actions iface) (0, q)
      = Inr (Suc 0, q @ [copy_in_op strm buffers (0 + 0) (actions iface)])"
    by (rule copyToSim_next_ok [OF c0])
  have e2: "copyToSim_next strm buffers 0 (resets iface) (Suc 0, q')
      = Inr (Suc (Suc 0), q' @ [copy_in_op strm buffers (0 + Suc 0) (resets iface)])" for q'
    by (rule copyToSim_next_ok [OF c1])
  show ?thesis
  proof (cases "policyAssignments iface")
    case None
    let ?B = "?no + ?ns + 4"
    have off: "output_buffers_offset iface = ?B"
      by (simp add: output_buffers_offset_def None)
    have c2: "?B + 2 < length buffers" and c3: "?B + 3 < length buffers"
      and c4: "?B + 4 + ?no \<le> length buffers"
      and c5: "?B + (4 + ?no) + ?ns \<le> length buffers"
      using assms by (simp_all add: off)
    have e4: "copyFromSim_next strm buffers ?B (rewards iface) (Suc (Suc 0), q')
        = Inr (3, q' @ [copy_out_op strm buffers (?B + 2) (rewards iface)])" for q'
      using copyFromSim_next_ok [OF c2, of strm "rewards iface" q']
      by (simp add: numeral_2_eq_2 numeral_3_eq_3)
    have e5: "copyFromSim_next strm buffers ?B (dones iface) (3, q')
        = Inr (4, q' @ [copy_out_op strm buffers (?B + 3) (dones iface)])" for q'
      using copyFromSim_next_ok [OF c3, of strm "dones iface" q']
      by (simp add: eval_nat_numeral)
    have e7: "copy_named_out strm buffers ?B (observations iface) (4, q')
        = Inr (4 + ?no, q' @ map (\<lambda>(k, t). copy_out_op strm buffers k t)
            (enumerate (?B + 4) (map hdl (observations iface))))" for q'
      by (rule copy_named_out_ok [OF c4])
    have e8: "copy_named_out strm buffers ?B (stats iface) (4 + ?no, q')
        = Inr (4 + ?no + ?ns, q' @ map (\<lambda>(k, t). copy_out_op strm buffers k t)
            (enumerate (?B + (4 + ?no)) (map hdl (stats iface))))" for q'
      by (rule copy_named_out_ok [OF c5])
    have spec: "rollout_ops_spec strm buffers (?B + 2) iface =
        [copy_in_op strm buffers 0 (actions iface),
         copy_in_op strm buffers 1 (resets iface),
         runAsync strm,
         copy_out_op strm buffers (?B + 2) (rewards iface),
         copy_out_op strm buffers (?B + 3) (dones iface)]
        @ map (\<lambda>(k, t). copy_out_op strm buffers k t)
            (enumerate (?B + 4) (map hdl (observations iface)))
        @ map (\<lambda>(k, t). copy_out_op strm buffers k t)
            (enumerate (?B + (4 + ?no)) (map hdl (stats iface)))"
      by (simp add: rollout_ops_spec_def rollout_outputs_spec_def None enumerate_append_eq
          add_ac)
    show ?thesis
      unfolding off spec
      by (simp add: gpuRollout_def Let_def None e1 e2 e4 e5 e7 e8)
  next
    case (Some pa)
    let ?B = "5 + (?no + ?ns)"
    have off: "output_buffers_offset iface = ?B"
      by (simp add: output_buffers_offset_def Some)
    have c2: "?B + 2 < length buffers" and c3: "?B + 3 < length buffers"
      and c6: "?B + 4 < length buffers"
      and c4: "?B + 5 + ?no \<le> length buffers"
      and c5: "?B + (5 + ?no) + ?ns \<le> length buffers"
      using assms by (simp_all add: off)
    have e4: "copyFromSim_next strm buffers ?B (rewards iface) (Suc (Suc 0), q')
        = Inr (3, q' @ [copy_out_op strm buffers (?B + 2) (rewards iface)])" for q'
      using copyFromSim_next_ok [OF c2, of strm "rewards iface" q']
      by (simp add: numeral_2_eq_2 numeral_3_eq_3)
    have e5: "copyFromSim_next strm buffers ?B (dones iface) (3, q')
        = Inr (4, q' @ [copy_out_op strm buffers (?B + 3) (dones iface)])" for q'
      using copyFromSim_next_ok [OF c3, of strm "dones iface" q']
      by (simp add: eval_nat_numeral)
    have e6: "copyFromSim_next strm buffers ?B pa (4, q')
        = Inr (5, q' @ [copy_out_op strm buffers (?B + 4) pa])" for q'
      using copyFromSim_next_ok [OF c6, of strm pa q']
      by (simp add: eval_nat_numeral)
    have e7: "copy_named_out strm buffers ?B (observations iface) (5, q')
        = Inr (5 + ?no, q' @ map (\<lambda>(k, t). copy_out_op strm buffers k t)
            (enumerate (?B + 5) (map hdl (observations iface))))" for q'
      by (rule copy_named_out_ok [OF c4])
    have e8: "copy_named_out strm buffers ?B (stats iface) (5 + ?no, q')
        = Inr (5 + ?no + ?ns, q' @ map (\<lambda>(k, t). copy_out_op strm buffers k t)
            (enumerate (?B + (5 + ?no)) (map hdl (stats iface))))" for q'
      by (rule copy_named_out_ok [OF c5])
    have spec: "rollout_ops_spec strm buffers (?B + 2) iface =
        [copy_in_op strm buffers 0 (actions iface),
         copy_in_op strm buffers 1 (resets iface),
         runAsync strm,
         copy_out_op strm buffers (?B + 2) (rewards iface),
         copy_out_op strm buffers (?B + 3) (dones iface),
         copy_out_op strm buffers (?B + 4) pa]
        @ map (\<lambda>(k, t). copy_out_op strm buffers k t)
            (enumerate (?B + 5) (map hdl (observations iface)))
        @ map (\<lambda>(k, t). copy_out_op strm buffers k t)
            (enumerate (?B + (5 + ?no)) (map hdl (stats iface)))"
      by (simp add: rollout_ops_spec_def rollout_outputs_spec_def Some enumerate_append_eq
          add_ac)
    show ?thesis
      unfolding off spec
      by (simp add: gpuRollout_def Let_def Some e1 e2 e4 e5 e6 e7 e8)
  qed
qed

text \<open>
  Claim C2. Where the caller's array holds every element the rollout reads (twice the
  position of \<^verbatim>\<open>output_buffers\<close>), a rollout on a stream returns, and what it has
  enqueued on that stream is exactly: the copy of the external action buffer into the
  action tensor, the copy of the external reset buffer into the reset tensor, the
  asynchronous launch of the step, and then one copy out of each of the rewards, the dones,
  the policy assignment if the descriptor has one, the observations in their order and the
  statistics in their order. Every operation is on the given stream, every copy is
  device-to-device.
\<close>

theorem gpuRollout_enqueues_in_spec_order:
  assumes "2 * output_buffers_offset iface \<le> length buffers"
  shows "gpuRollout strm buffers iface q =
     Inr (q @
       [cudaMemcpyAsync (devicePtr (actions iface)) (buffers ! 0)
          (numTensorBytes (actions iface)) cudaMemcpyDeviceToDevice strm,
        cudaMemcpyAsync (devicePtr (resets iface)) (buffers ! 1)
          (numTensorBytes (resets iface)) cudaMemcpyDeviceToDevice strm,
        runAsync strm]
       @ map (\<lambda>(k, t). cudaMemcpyAsync (buffers ! k) (devicePtr t) (numTensorBytes t)
                          cudaMemcpyDeviceToDevice strm)
           (enumerate (output_buffers_offset iface + 2)
              ([rewards iface, dones iface]
               @ (case policyAssignments iface of None \<Rightarrow> [] | Some pa \<Rightarrow> [pa])
               @ map hdl (observations iface)
               @ map hdl (stats iface))))"
proof -
  have "rollout_ops_spec strm buffers (output_buffers_offset iface + 2) iface =
       [cudaMemcpyAsync (devicePtr (actions iface)) (buffers ! 0)
          (numTensorBytes (actions iface)) cudaMemcpyDeviceToDevice strm,
        cudaMemcpyAsync (devicePtr (resets iface)) (buffers ! 1)
          (numTensorBytes (resets iface)) cudaMemcpyDeviceToDevice strm,
        runAsync strm]
       @ map (\<lambda>(k, t). cudaMemcpyAsync (buffers ! k) (devicePtr t) (numTensorBytes t)
                          cudaMemcpyDeviceToDevice strm)
           (enumerate (output_buffers_offset iface + 2)
              ([rewards iface, dones iface]
               @ (case policyAssignments iface of None \<Rightarrow> [] | Some pa \<Rightarrow> [pa])
               @ map hdl (observations iface)
               @ map hdl (stats iface)))"
    unfolding rollout_ops_spec_def rollout_outputs_spec_def copy_in_op_def copy_out_op_def
    by (rule refl)
  with gpuRollout_closed [OF assms, of strm q] show ?thesis
    by simp
qed

text \<open>
  The claim on a concrete descriptor with one observation, one statistic and a policy
  assignment, and an array of fourteen pointers \<open>1000, ..., 1013\<close>.
\<close>

theorem gpuRollout_enqueues_in_spec_order_witness:
  "2 * output_buffers_offset example_iface = length example_buffers
   \<and> gpuRollout 9 example_buffers example_iface [] =
     Inr [cudaMemcpyAsync 100 1000 96 cudaMemcpyDeviceToDevice 9,
          cudaMemcpyAsync 400 1001 12 cudaMemcpyDeviceToDevice 9,
          runAsync 9,
          cudaMemcpyAsync 1009 200 24 cudaMemcpyDeviceToDevice 9,
          cudaMemcpyAsync 1010 300 24 cudaMemcpyDeviceToDevice 9,
          cudaMemcpyAsync 1011 600 24 cudaMemcpyDeviceToDevice 9,
          cudaMemcpyAsync 1012 500 192 cudaMemcpyDeviceToDevice 9,
          cudaMemcpyAsync 1013 700 30 cudaMemcpyDeviceToDevice 9]"
proof -
  have len: "2 * output_buffers_offset example_iface = length example_buffers"
    by (simp add: output_buffers_offset_def example_iface_def example_buffers_def)
  then have le: "2 * output_buffers_offset example_iface \<le> length example_buffers"
    by simp
  have off: "output_buffers_offset example_iface = 7"
    by (simp add: output_buffers_offset_def example_iface_def)
  from gpuRollout_enqueues_in_spec_order [OF le, of 9 "[]"] len show ?thesis
    by (simp add: off example_iface_def example_buffers_def example_tensor_def
        numTensorBytes_def numBytesPerItem_def)
qed

lemma num_items_loop_product:
  "num_items_loop acc ds = acc * word_of_int (prod_list (map sint ds))"
  by (induction ds arbitrary: acc) (simp_all add: mult.assoc)

lemma numTensorBytes_product:
  "uint (numTensorBytes t)
     = (prod_list (map sint (dims t)) * sint (numBytesPerItem t)) mod 2 ^ 64"
proof -
  have "numTensorBytes t
      = word_of_int (prod_list (map sint (dims t)) * sint (numBytesPerItem t))"
    by (simp add: numTensorBytes_def num_items_loop_product)
  then have "uint (numTensorBytes t)
      = uint (word_of_int (prod_list (map sint (dims t)) * sint (numBytesPerItem t)) :: 64 word)"
    by (rule arg_cong)
  also have "\<dots> = (prod_list (map sint (dims t)) * sint (numBytesPerItem t)) mod 2 ^ 64"
    by (simp only: uint_word_of_int) simp
  finally show ?thesis .
qed

lemma is_copy_ops [simp]:
  "is_copy (copy_in_op strm bufs k t)" "is_copy (copy_out_op strm bufs k t)"
  "\<not> is_copy (runAsync strm)"
  by (simp_all add: is_copy_def copy_in_op_def copy_out_op_def)

lemma op_count_ops [simp]:
  "op_count (copy_in_op strm bufs k t) = numTensorBytes t"
  "op_count (copy_out_op strm bufs k t) = numTensorBytes t"
  by (simp_all add: copy_in_op_def copy_out_op_def)

lemma counts_of_out_copies:
  "map op_count (filter is_copy
     (map (\<lambda>(k, t). copy_out_op strm bufs k t) (enumerate n ts))) = map numTensorBytes ts"
  by (induction ts arbitrary: n) simp_all

lemma counts_of_rollout_ops:
  "map op_count (filter is_copy (rollout_ops_spec strm bufs n iface))
     = map numTensorBytes (rollout_inputs_spec iface @ rollout_outputs_spec iface)"
  by (simp add: rollout_ops_spec_def rollout_inputs_spec_def counts_of_out_copies)

text \<open>
  Claim C6. For two caller arrays, each long enough for the rollout, the rollouts return,
  and the byte counts of the copies they enqueue are the same list: for each copy, in
  order, the count is \<^verbatim>\<open>numTensorBytes\<close> of the simulation-side tensor (the destination
  of a copy in, the source of a copy out), which is the product of that tensor's
  dimensions times its element width, in unsigned 64-bit arithmetic. Nothing of the
  caller's array enters a count.
\<close>

theorem rollout_copy_sizes_from_sim_tensors:
  assumes "2 * output_buffers_offset iface \<le> length buffers"
    and "2 * output_buffers_offset iface \<le> length buffers'"
  shows "\<exists>ops ops'. gpuRollout strm buffers iface q = Inr (q @ ops)
      \<and> gpuRollout strm buffers' iface q = Inr (q @ ops')
      \<and> map op_count (filter is_copy ops)
          = map numTensorBytes (rollout_inputs_spec iface @ rollout_outputs_spec iface)
      \<and> map op_count (filter is_copy ops') = map op_count (filter is_copy ops)
      \<and> (\<forall>t \<in> set (rollout_inputs_spec iface @ rollout_outputs_spec iface).
            uint (numTensorBytes t)
              = (prod_list (map sint (dims t)) * sint (numBytesPerItem t)) mod 2 ^ 64)"
proof -
  let ?n = "output_buffers_offset iface + 2"
  have a: "gpuRollout strm buffers iface q = Inr (q @ rollout_ops_spec strm buffers ?n iface)"
    and b: "gpuRollout strm buffers' iface q = Inr (q @ rollout_ops_spec strm buffers' ?n iface)"
    using assms by (simp_all add: gpuRollout_closed)
  have c: "map op_count (filter is_copy (rollout_ops_spec strm buffers ?n iface))
      = map numTensorBytes (rollout_inputs_spec iface @ rollout_outputs_spec iface)"
    and d: "map op_count (filter is_copy (rollout_ops_spec strm buffers' ?n iface))
      = map op_count (filter is_copy (rollout_ops_spec strm buffers ?n iface))"
    by (simp_all only: counts_of_rollout_ops)
  have e: "\<forall>t \<in> set (rollout_inputs_spec iface @ rollout_outputs_spec iface).
            uint (numTensorBytes t)
              = (prod_list (map sint (dims t)) * sint (numBytesPerItem t)) mod 2 ^ 64"
    by (simp only: numTensorBytes_product) simp
  from a b c d e show ?thesis
    by blast
qed

text \<open>
  The claim on the concrete descriptor, with two different arrays: the seven byte counts
  are \<open>6 * 4 * 4\<close>, \<open>3 * 1 * 4\<close>, \<open>6 * 1 * 4\<close> (three times), \<open>6 * 8 * 4\<close> and
  \<open>3 * 10 * 1\<close>.
\<close>

theorem rollout_copy_sizes_from_sim_tensors_witness:
  "\<exists>ops ops'. gpuRollout 9 example_buffers example_iface [] = Inr ops
      \<and> gpuRollout 9 (map (\<lambda>p. p + 5000) example_buffers) example_iface [] = Inr ops'
      \<and> map op_count (filter is_copy ops) = [96, 12, 24, 24, 24, 192, 30]
      \<and> map op_count (filter is_copy ops') = [96, 12, 24, 24, 24, 192, 30]
      \<and> uint (numTensorBytes (actions example_iface)) = 6 * 4 * 4"
proof -
  have le: "2 * output_buffers_offset example_iface \<le> length example_buffers"
    and le': "2 * output_buffers_offset example_iface
        \<le> length (map (\<lambda>p. p + 5000) example_buffers)"
    by (simp_all add: output_buffers_offset_def example_iface_def example_buffers_def)
  have ts: "map numTensorBytes
      (rollout_inputs_spec example_iface @ rollout_outputs_spec example_iface)
      = [96, 12, 24, 24, 24, 192, 30]"
    by (simp add: rollout_inputs_spec_def rollout_outputs_spec_def example_iface_def
        example_tensor_def numTensorBytes_def numBytesPerItem_def)
  have mem: "actions example_iface
      \<in> set (rollout_inputs_spec example_iface @ rollout_outputs_spec example_iface)"
    by (simp add: rollout_inputs_spec_def)
  have prod: "(prod_list (map sint (dims (actions example_iface)))
       * sint (numBytesPerItem (actions example_iface))) mod 2 ^ 64 = 6 * 4 * 4"
    by (simp add: example_iface_def example_tensor_def numBytesPerItem_def)
  from rollout_copy_sizes_from_sim_tensors [OF le le', of 9 "[]"]
  obtain ops ops' where "gpuRollout 9 example_buffers example_iface [] = Inr ops"
    and "gpuRollout 9 (map (\<lambda>p. p + 5000) example_buffers) example_iface [] = Inr ops'"
    and "map op_count (filter is_copy ops)
          = map numTensorBytes (rollout_inputs_spec example_iface @ rollout_outputs_spec example_iface)"
    and "map op_count (filter is_copy ops') = map op_count (filter is_copy ops)"
    and "\<forall>t \<in> set (rollout_inputs_spec example_iface @ rollout_outputs_spec example_iface).
            uint (numTensorBytes t)
              = (prod_list (map sint (dims t)) * sint (numBytesPerItem t)) mod 2 ^ 64"
    by auto
  with ts mem prod show ?thesis
    by (metis (no_types, lifting))
qed

lemma op_dst_out [simp]: "op_dst (copy_out_op strm bufs k t) = bufs ! k"
  and op_src_out [simp]: "op_src (copy_out_op strm bufs k t) = devicePtr t"
  and op_src_in [simp]: "op_src (copy_in_op strm bufs k t) = bufs ! k"
  and op_dst_in [simp]: "op_dst (copy_in_op strm bufs k t) = devicePtr t"
  by (simp_all add: copy_in_op_def copy_out_op_def)

lemma dsts_of_out_copies:
  "map op_dst (map (\<lambda>(k, t). copy_out_op strm bufs k t) (enumerate n ts))
     = map (\<lambda>k. bufs ! k) [n..<n + length ts]"
proof (induction ts arbitrary: n)
  case Nil
  then show ?case by simp
next
  case (Cons t ts)
  have "n < n + length (t # ts)"
    by simp
  then have "[n..<n + length (t # ts)] = n # [Suc n..<n + length (t # ts)]"
    by (rule upt_conv_Cons)
  moreover have "n + length (t # ts) = Suc n + length ts"
    by simp
  ultimately have "[n..<n + length (t # ts)] = n # [Suc n..<Suc n + length ts]"
    by (simp only:)
  then show ?case
    by (simp only: Cons.IH [of "Suc n"] enumerate_simps list.map prod.case op_dst_out)
qed

lemma out_copies_ignore_lower_slots:
  assumes "\<forall>k \<ge> n. bufs' ! k = bufs ! k"
  shows "map (\<lambda>(k, t). copy_out_op strm bufs' k t) (enumerate n ts)
       = map (\<lambda>(k, t). copy_out_op strm bufs k t) (enumerate n ts)"
proof (rule map_cong [OF refl])
  fix x assume "x \<in> set (enumerate n ts)"
  then have "n \<le> fst x"
    by (simp add: in_set_enumerate_eq)
  with assms have "bufs' ! fst x = bufs ! fst x"
    by blast
  then show "(case x of (k, t) \<Rightarrow> copy_out_op strm bufs' k t)
      = (case x of (k, t) \<Rightarrow> copy_out_op strm bufs k t)"
    by (simp add: case_prod_unfold copy_out_op_def)
qed

text \<open>
  Claim C9. The running index is not reset between the two phases. With
  \<^verbatim>\<open>output_buffers\<close> at element \<open>off = numObservations + numStats + 4\<close> (one more
  with a policy assignment) of the caller's array, the copies in read elements 0 and 1, the
  rewards go to element \<open>off + 2\<close> (that is \<^verbatim>\<open>output_buffers[2]\<close>), the dones to
  \<open>off + 3\<close>, and the copies out go to the consecutive elements \<open>off + 2\<close> up to
  \<open>2 * off - 1\<close>. Elements \<open>off\<close> and \<open>off + 1\<close>
  (\<^verbatim>\<open>output_buffers[0]\<close> and \<^verbatim>\<open>output_buffers[1]\<close>) are never used: whatever
  pointers they hold, the rollout enqueues the same operations.
\<close>

theorem rollout_outputs_start_at_output_buffers_2:
  assumes "2 * output_buffers_offset iface \<le> length buffers"
  shows "\<exists>ops. gpuRollout strm buffers iface q = Inr (q @ ops)
     \<and> output_buffers_offset iface
         = length (observations iface) + length (stats iface) + 4
           + (if policyAssignments iface = None then 0 else 1)
     \<and> length ops = output_buffers_offset iface + 1
     \<and> op_src (ops ! 0) = buffers ! 0
     \<and> op_src (ops ! 1) = buffers ! 1
     \<and> ops ! 2 = runAsync strm
     \<and> op_src (ops ! 3) = devicePtr (rewards iface)
     \<and> op_dst (ops ! 3) = buffers ! (output_buffers_offset iface + 2)
     \<and> op_src (ops ! 4) = devicePtr (dones iface)
     \<and> op_dst (ops ! 4) = buffers ! (output_buffers_offset iface + 3)
     \<and> map op_dst (drop 3 ops)
         = map (\<lambda>k. buffers ! k)
             [output_buffers_offset iface + 2 ..< 2 * output_buffers_offset iface]
     \<and> (\<forall>p0 p1. gpuRollout strm
            (buffers[output_buffers_offset iface := p0,
                     output_buffers_offset iface + 1 := p1]) iface q = Inr (q @ ops))"
proof -
  let ?off = "output_buffers_offset iface"
  let ?ops = "rollout_ops_spec strm buffers (?off + 2) iface"
  let ?outs = "rollout_outputs_spec iface"
  have run: "gpuRollout strm buffers iface q = Inr (q @ ?ops)"
    using assms by (rule gpuRollout_closed)
  have off: "?off = length (observations iface) + length (stats iface) + 4
           + (if policyAssignments iface = None then 0 else 1)"
    by (simp add: output_buffers_offset_def split: option.splits)
  have louts: "length ?outs + 2 = ?off"
    by (rule length_rollout_outputs_spec)
  have len: "length ?ops = ?off + 1"
    using louts by (simp add: rollout_ops_spec_def)
  have outs: "?outs = rewards iface # dones iface # drop 2 ?outs"
    by (simp add: rollout_outputs_spec_def)
  have ops: "?ops = copy_in_op strm buffers 0 (actions iface)
      # copy_in_op strm buffers 1 (resets iface)
      # runAsync strm
      # copy_out_op strm buffers (?off + 2) (rewards iface)
      # copy_out_op strm buffers (?off + 3) (dones iface)
      # map (\<lambda>(k, t). copy_out_op strm buffers k t) (enumerate (?off + 4) (drop 2 ?outs))"
    by (subst rollout_ops_spec_def, subst outs) (simp add: numeral_eq_Suc)
  have heads: "op_src (?ops ! 0) = buffers ! 0 \<and> op_src (?ops ! 1) = buffers ! 1
     \<and> ?ops ! 2 = runAsync strm
     \<and> op_src (?ops ! 3) = devicePtr (rewards iface)
     \<and> op_dst (?ops ! 3) = buffers ! (?off + 2)
     \<and> op_src (?ops ! 4) = devicePtr (dones iface)
     \<and> op_dst (?ops ! 4) = buffers ! (?off + 3)"
    by (subst ops)+ (simp add: numeral_eq_Suc)
  have upper: "?off + 2 + length ?outs = 2 * ?off"
    using louts by simp
  have "drop 3 ?ops
      = map (\<lambda>(k, t). copy_out_op strm buffers k t) (enumerate (?off + 2) ?outs)"
    by (simp add: rollout_ops_spec_def)
  then have "map op_dst (drop 3 ?ops)
      = map (\<lambda>k. buffers ! k) [?off + 2 ..< ?off + 2 + length ?outs]"
    by (simp only: dsts_of_out_copies)
  then have dsts: "map op_dst (drop 3 ?ops)
      = map (\<lambda>k. buffers ! k) [?off + 2 ..< 2 * ?off]"
    by (simp only: upper)
  have indep: "gpuRollout strm (buffers[?off := p0, ?off + 1 := p1]) iface q = Inr (q @ ?ops)"
    for p0 p1
  proof -
    let ?b = "buffers[?off := p0, ?off + 1 := p1]"
    have four: "4 \<le> ?off"
      by (simp add: output_buffers_offset_def)
    have "2 * ?off \<le> length ?b"
      using assms by simp
    then have r: "gpuRollout strm ?b iface q = Inr (q @ rollout_ops_spec strm ?b (?off + 2) iface)"
      by (rule gpuRollout_closed)
    have n0: "?off \<noteq> 0" and n1: "?off \<noteq> Suc 0"
      using four by linarith+
    have high: "\<forall>k \<ge> ?off + 2. ?b ! k = buffers ! k"
      by simp
    have "rollout_ops_spec strm ?b (?off + 2) iface = ?ops"
      unfolding rollout_ops_spec_def out_copies_ignore_lower_slots [OF high]
      by (simp add: copy_in_op_def n0 n1)
    with r show ?thesis
      by simp
  qed
  from run off len heads dsts indep show ?thesis
    by blast
qed

text \<open>
  The claim on the concrete descriptor: \<^verbatim>\<open>output_buffers\<close> is at element 7, the
  rewards go to element 9, the dones to element 10, and elements 7 and 8 may hold anything.
\<close>

theorem rollout_outputs_start_at_output_buffers_2_witness:
  "\<exists>ops. gpuRollout 9 example_buffers example_iface [] = Inr ops
     \<and> output_buffers_offset example_iface = 7
     \<and> length ops = 8
     \<and> op_src (ops ! 0) = 1000
     \<and> op_src (ops ! 1) = 1001
     \<and> op_dst (ops ! 3) = 1009
     \<and> op_dst (ops ! 4) = 1010
     \<and> map op_dst (drop 3 ops) = [1009, 1010, 1011, 1012, 1013]
     \<and> gpuRollout 9 (example_buffers[7 := 0, 8 := 0]) example_iface [] = Inr ops"
proof -
  have off: "output_buffers_offset example_iface = 7"
    by (simp add: output_buffers_offset_def example_iface_def)
  have le: "2 * output_buffers_offset example_iface \<le> length example_buffers"
    by (simp add: off example_buffers_def)
  have upt: "[9..<14] = [9, 10, 11, 12, 13 :: nat]"
    by (simp add: upt_conv_Cons)
  from rollout_outputs_start_at_output_buffers_2 [OF le, of 9 "[]"]
  obtain ops where r0: "gpuRollout 9 example_buffers example_iface [] = Inr ([] @ ops)"
    and l: "length ops = output_buffers_offset example_iface + 1"
    and s0: "op_src (ops ! 0) = example_buffers ! 0"
    and s1: "op_src (ops ! 1) = example_buffers ! 1"
    and d3: "op_dst (ops ! 3) = example_buffers ! (output_buffers_offset example_iface + 2)"
    and d4: "op_dst (ops ! 4) = example_buffers ! (output_buffers_offset example_iface + 3)"
    and ds: "map op_dst (drop 3 ops) = map (\<lambda>k. example_buffers ! k)
        [output_buffers_offset example_iface + 2 ..< 2 * output_buffers_offset example_iface]"
    and ind: "\<forall>p0 p1. gpuRollout 9
        (example_buffers[output_buffers_offset example_iface := p0,
                         output_buffers_offset example_iface + 1 := p1]) example_iface []
        = Inr ([] @ ops)"
    by blast
  have r: "gpuRollout 9 example_buffers example_iface [] = Inr ops"
    using r0 by simp
  have l': "length ops = 8"
    using l by (simp add: off)
  have s0': "op_src (ops ! 0) = 1000" and s1': "op_src (ops ! 1) = 1001"
    using s0 s1 by (simp_all add: example_buffers_def)
  have d3': "op_dst (ops ! 3) = 1009" and d4': "op_dst (ops ! 4) = 1010"
    using d3 d4 by (simp_all add: off example_buffers_def)
  have ds': "map op_dst (drop 3 ops) = [1009, 1010, 1011, 1012, 1013]"
    using ds by (simp add: off upt example_buffers_def)
  have ind': "gpuRollout 9 (example_buffers[7 := 0, 8 := 0]) example_iface [] = Inr ops"
    using ind [rule_format, of 0 0] by (simp add: off)
  show ?thesis
    by (rule exI [of _ ops]) (simp only: r off l' s0' s1' d3' d4' ds' ind' simp_thms)
qed

text \<open>
  The bound on the caller's array is exact: a rollout that returns has read element
  \<open>2 * off - 1\<close> of it. On a shorter array the rollout reads outside it.
\<close>

lemma copyToSim_next_Inr:
  "copyToSim_next strm bufs b t st = Inr st' \<Longrightarrow>
   b + fst st < length bufs \<and> fst st' = Suc (fst st)"
  by (auto simp: copyToSim_next_def read_buffer_def bindE_eq_Inr split: if_splits)

lemma copyFromSim_next_Inr:
  "copyFromSim_next strm bufs b t st = Inr st' \<Longrightarrow>
   b + fst st < length bufs \<and> fst st' = Suc (fst st)"
  by (auto simp: copyFromSim_next_def read_buffer_def bindE_eq_Inr split: if_splits)

lemma copy_named_out_Inr:
  "copy_named_out strm bufs b ts st = Inr st' \<Longrightarrow>
   fst st' = fst st + length ts \<and> (ts \<noteq> [] \<longrightarrow> b + fst st + length ts \<le> length bufs)"
proof (induction ts arbitrary: st)
  case Nil
  then show ?case by simp
next
  case (Cons t ts)
  then obtain st1 where one: "copyFromSim_next strm bufs b (hdl t) st = Inr st1"
    and rest: "copy_named_out strm bufs b ts st1 = Inr st'"
    by (auto split: sum.splits)
  from copyFromSim_next_Inr [OF one] have here: "b + fst st < length bufs"
    and next_idx: "fst st1 = Suc (fst st)"
    by simp_all
  from Cons.IH [OF rest] have idx: "fst st' = fst st1 + length ts"
    and bound: "ts \<noteq> [] \<longrightarrow> b + fst st1 + length ts \<le> length bufs"
    by simp_all
  show ?case
  proof (cases "ts = []")
    case True
    with idx next_idx here show ?thesis by simp
  next
    case False
    with idx next_idx bound show ?thesis by simp
  qed
qed

lemma gpuRollout_Inr_length:
  assumes "gpuRollout strm buffers iface q = Inr q'"
  shows "2 * output_buffers_offset iface \<le> length buffers"
proof -
  let ?no = "length (observations iface)" and ?ns = "length (stats iface)"
  let ?B = "if policyAssignments iface \<noteq> None then ?no + ?ns + 4 + 1 else ?no + ?ns + 4"
  have B: "?B = output_buffers_offset iface"
    by (simp add: output_buffers_offset_def split: option.splits)
  from assms obtain s1 s2 s4 s5 s6 s7 s8 where
    e1: "copyToSim_next strm buffers 0 (actions iface) (0, q) = Inr s1"
    and e2: "copyToSim_next strm buffers 0 (resets iface) s1 = Inr s2"
    and e4: "copyFromSim_next strm buffers ?B (rewards iface)
               (fst s2, snd s2 @ [runAsync strm]) = Inr s4"
    and e5: "copyFromSim_next strm buffers ?B (dones iface) s4 = Inr s5"
    and e6: "(case policyAssignments iface of None \<Rightarrow> Inr s5
              | Some pa \<Rightarrow> copyFromSim_next strm buffers ?B pa s5) = Inr s6"
    and e7: "copy_named_out strm buffers ?B (observations iface) s6 = Inr s7"
    and e8: "copy_named_out strm buffers ?B (stats iface) s7 = Inr s8"
    unfolding gpuRollout_def Let_def bindE_eq_Inr by blast
  let ?off = "output_buffers_offset iface"
  from copyToSim_next_Inr [OF e1] have i1: "fst s1 = 1" by simp
  from copyToSim_next_Inr [OF e2] i1 have i2: "fst s2 = 2" by simp
  from copyFromSim_next_Inr [OF e4] i2 have i4: "fst s4 = 3" by simp
  from copyFromSim_next_Inr [OF e5] i4 have i5: "fst s5 = 4" and b5: "?off + 3 < length buffers"
    unfolding B by simp_all
  show ?thesis
  proof (cases "policyAssignments iface")
    case None
    with e6 have i6: "fst s6 = 4" using i5 by simp
    have off: "?off = ?no + ?ns + 4"
      by (simp add: output_buffers_offset_def None)
    from copy_named_out_Inr [OF e7] i6
    have i7: "fst s7 = 4 + ?no"
      and b7: "observations iface \<noteq> [] \<longrightarrow> ?off + 4 + ?no \<le> length buffers"
      unfolding B by simp_all
    from copy_named_out_Inr [OF e8] i7
    have b8: "stats iface \<noteq> [] \<longrightarrow> ?off + (4 + ?no) + ?ns \<le> length buffers"
      unfolding B by simp_all
    show ?thesis
    proof (cases "stats iface = []")
      case False
      with b8 off show ?thesis by simp
    next
      case True
      note st = this
      show ?thesis
      proof (cases "observations iface = []")
        case False
        with b7 off st show ?thesis by simp
      next
        case True
        with b5 off st show ?thesis by simp
      qed
    qed
  next
    case (Some pa)
    with e6 have e6': "copyFromSim_next strm buffers ?B pa s5 = Inr s6" by simp
    from copyFromSim_next_Inr [OF e6'] i5
    have i6: "fst s6 = 5" and b6: "?off + 4 < length buffers"
      unfolding B by simp_all
    have off: "?off = ?no + ?ns + 5"
      by (simp add: output_buffers_offset_def Some)
    from copy_named_out_Inr [OF e7] i6
    have i7: "fst s7 = 5 + ?no"
      and b7: "observations iface \<noteq> [] \<longrightarrow> ?off + 5 + ?no \<le> length buffers"
      unfolding B by simp_all
    from copy_named_out_Inr [OF e8] i7
    have b8: "stats iface \<noteq> [] \<longrightarrow> ?off + (5 + ?no) + ?ns \<le> length buffers"
      unfolding B by simp_all
    show ?thesis
    proof (cases "stats iface = []")
      case False
      with b8 off show ?thesis by simp
    next
      case True
      note st = this
      show ?thesis
      proof (cases "observations iface = []")
        case False
        with b7 off st show ?thesis by simp
      next
        case True
        with b6 off st show ?thesis by simp
      qed
    qed
  qed
qed

end
